theory Spec2Isabelle
  imports Main "HOL-Library.Word"
begin

unbundle bit_operations_syntax

section \<open>Machine types and constants of wolfcrypt/src/pkcs7.c\<close>

text \<open>
  The C types of the source: \<open>byte\<close> is an unsigned 8-bit value, \<open>word32\<close> an
  unsigned 32-bit value. A C \<open>int\<close> is kept as a 32-bit word and read with
  \<open>sint\<close> wherever its sign matters.
\<close>

type_synonym byte = "8 word"
type_synonym word32 = "32 word"
type_synonym c_int = "32 word"

text \<open>
  Numeric error code of wolfssl/wolfcrypt/error-crypt.h (the header is not part of
  pkcs7.c). Only \<open>wc_PKCS7_PadData\<close> uses an error code as a number.
\<close>

definition BAD_FUNC_ARG_code :: c_int where
  "BAD_FUNC_ARG_code = - 173"

section \<open>PKCS\#7 padding\<close>

text \<open>
  \<open>wc_PKCS7_GetPadSize\<close> (pkcs7.c 3951-3962). The subtraction and the remainder
  are unsigned 32-bit operations; the result is returned as \<open>int\<close>.
\<close>

definition wc_PKCS7_GetPadSize :: "word32 \<Rightarrow> word32 \<Rightarrow> c_int" where
  "wc_PKCS7_GetPadSize inputSz blockSz =
     (if blockSz = 0 then BAD_FUNC_ARG_code
      else blockSz - (inputSz mod blockSz))"

text \<open>
  \<open>XMEMCPY(dst + off, src, n)\<close> on buffers whose real sizes are the lengths of the
  lists. An access outside either buffer is undefined behaviour in C; the model returns
  \<open>None\<close> for it.
\<close>

definition xmemcpy :: "byte list \<Rightarrow> nat \<Rightarrow> byte list \<Rightarrow> nat \<Rightarrow> byte list option" where
  "xmemcpy dst off src n =
     (if n \<le> length src \<and> off + n \<le> length dst
      then Some (take off dst @ take n src @ drop (off + n) dst)
      else None)"

text \<open>
  The loop \<open>for (i = 0; i < padSz; i++) out[inSz + i] = (byte)padSz;\<close> of
  \<open>wc_PKCS7_PadData\<close>. The first argument is the number of iterations still to
  run, the second the value of \<open>i\<close>. The index \<open>inSz + i\<close> is computed in
  unsigned 32-bit arithmetic.
\<close>

fun pad_loop :: "nat \<Rightarrow> nat \<Rightarrow> word32 \<Rightarrow> byte \<Rightarrow> byte list \<Rightarrow> byte list option" where
  "pad_loop 0 i inSz b out = Some out"
| "pad_loop (Suc n) i inSz b out =
     (let k = unat (inSz + of_nat i)
      in if k < length out then pad_loop n (Suc i) inSz b (out[k := b]) else None)"

text \<open>
  \<open>wc_PKCS7_PadData\<close> (pkcs7.c 3965-3988). A buffer argument is \<open>None\<close> for a
  NULL pointer. The result is \<open>None\<close> when the code reads or writes outside a
  buffer, and otherwise the returned \<open>int\<close> with the contents of \<open>out\<close>.
  The comparison \<open>outSz < (inSz + padSz)\<close> is unsigned; the loop bound
  \<open>i < padSz\<close> is signed, so a non-positive \<open>padSz\<close> runs no iteration.
\<close>

definition wc_PKCS7_PadData ::
  "byte list option \<Rightarrow> word32 \<Rightarrow> byte list option \<Rightarrow> word32 \<Rightarrow> word32
     \<Rightarrow> (c_int \<times> byte list option) option" where
  "wc_PKCS7_PadData inp inSz out outSz blockSz =
     (case inp of
        None \<Rightarrow> Some (BAD_FUNC_ARG_code, out)
      | Some ib \<Rightarrow>
          (case out of
             None \<Rightarrow> Some (BAD_FUNC_ARG_code, out)
           | Some ob \<Rightarrow>
               if inSz = 0 \<or> outSz = 0 then Some (BAD_FUNC_ARG_code, out)
               else
                 let padSz = wc_PKCS7_GetPadSize inSz blockSz
                 in if outSz < inSz + padSz then Some (BAD_FUNC_ARG_code, out)
                    else
                      (case xmemcpy ob 0 ib (unat inSz) of
                         None \<Rightarrow> None
                       | Some o1 \<Rightarrow>
                           (case pad_loop (nat (sint padSz)) 0 inSz (ucast padSz) o1 of
                              None \<Rightarrow> None
                            | Some o2 \<Rightarrow> Some (inSz + padSz, Some o2)))))"

text \<open>
  Removal of the padding as the decoders do it (pkcs7.c 5292-5305 in
  \<open>wc_PKCS7_DecodeEnvelopedData\<close>, 5690-5693 and 5721 in
  \<open>wc_PKCS7_DecodeEncryptedData\<close>): \<open>padLen\<close> is the last byte of the decrypted
  content, \<open>encryptedContentSz - padLen\<close> bytes are copied to the output and that
  difference, an \<open>int\<close>, is returned. The pair is the returned value and the bytes
  that a copy of a non-negative count delivers.
\<close>

definition strip_pad_len :: "byte list \<Rightarrow> int" where
  "strip_pad_len encryptedContent =
     int (length encryptedContent) - uint (last encryptedContent)"

definition strip_pad :: "byte list \<Rightarrow> int \<times> byte list" where
  "strip_pad encryptedContent =
     (strip_pad_len encryptedContent,
      take (nat (strip_pad_len encryptedContent)) encryptedContent)"


section \<open>Errors and results\<close>

text \<open>
  The error codes that pkcs7.c returns by name, as values. \<open>PRIM_E c\<close> is a
  negative code \<open>c\<close> handed up from a primitive of the layers below (hash, RSA, ECC,
  ciphers, ASN.1), \<open>MEM_FAULT\<close> an access outside a buffer, which is undefined
  behaviour in C, and \<open>LOOPS\<close> stands for a loop that does not come to an end: a
  loop of pkcs7.c that walks a buffer ends because the ASN.1 readers move the index
  forward and keep it within their bound, as those of asn.c do; where a reader of the
  record \<open>ext\<close> below does not, the model stops with \<open>LOOPS\<close>. A function that returns a negative \<open>int\<close> on error and a payload
  otherwise has a result of type \<open>error + 'a\<close>.
\<close>

datatype error =
    BAD_FUNC_ARG | BUFFER_E | MEMORY_E | ASN_PARSE_E | ASN_VERSION_E | ALGO_ID_E
  | SKID_E | SIG_VERIFY_E | PKCS7_OID_E | PKCS7_NO_SIGNER_E | PKCS7_RECIP_E
  | ASN_SIG_KEY_E | BER_INDEF_E | BAD_KEYWRAP_ALG_E | NOT_COMPILED_IN
  | PRIM_E int | MEM_FAULT | LOOPS

definition bindE :: "error + 'a \<Rightarrow> ('a \<Rightarrow> error + 'b) \<Rightarrow> error + 'b" where
  "bindE m f = (case m of Inl e \<Rightarrow> Inl e | Inr v \<Rightarrow> f v)"

text \<open>\<open>orE m e\<close>: a helper that failed (\<open>None\<close>) makes the caller return \<open>e\<close>.\<close>

definition orE :: "'a option \<Rightarrow> error \<Rightarrow> error + 'a" where
  "orE m e = (case m of None \<Rightarrow> Inl e | Some v \<Rightarrow> Inr v)"

text \<open>A return code that is 0 or an error: \<open>None\<close> is 0.\<close>

definition okE :: "error option \<Rightarrow> error + unit" where
  "okE r = (case r of None \<Rightarrow> Inr () | Some e \<Rightarrow> Inl e)"

text \<open>Reading \<open>buf[i]\<close> and \<open>n\<close> bytes at \<open>buf + i\<close>.\<close>

definition read_byte :: "byte list \<Rightarrow> nat \<Rightarrow> error + byte" where
  "read_byte buf i = (if i < length buf then Inr (buf ! i) else Inl MEM_FAULT)"

definition read_bytes :: "byte list \<Rightarrow> nat \<Rightarrow> nat \<Rightarrow> error + byte list" where
  "read_bytes buf i n =
     (if i + n \<le> length buf then Inr (take n (drop i buf)) else Inl MEM_FAULT)"

section \<open>Constants of the headers\<close>

text \<open>
  Constants that pkcs7.c takes from wolfssl/wolfcrypt/asn.h, asn\_public.h, pkcs7.h,
  aes.h, des3.h and types.h. The object identifiers are the sums of the octets of their
  encodings, as the ASN.1 layer computes them.
\<close>

definition ASN_OCTET_STRING :: byte where "ASN_OCTET_STRING = 0x04"
definition ASN_OBJECT_ID :: byte where "ASN_OBJECT_ID = 0x06"
definition ASN_SEQUENCE :: byte where "ASN_SEQUENCE = 0x10"
definition ASN_SET :: byte where "ASN_SET = 0x11"
definition ASN_CONSTRUCTED :: byte where "ASN_CONSTRUCTED = 0x20"
definition ASN_CONTEXT_SPECIFIC :: byte where "ASN_CONTEXT_SPECIFIC = 0x80"

definition PKCS7_MSG :: nat where "PKCS7_MSG = 650"
definition DATA :: nat where "DATA = 651"
definition SIGNED_DATA :: nat where "SIGNED_DATA = 652"
definition ENVELOPED_DATA :: nat where "ENVELOPED_DATA = 653"
definition SIGNED_AND_ENVELOPED_DATA :: nat where "SIGNED_AND_ENVELOPED_DATA = 654"
definition DIGESTED_DATA :: nat where "DIGESTED_DATA = 655"
definition ENCRYPTED_DATA :: nat where "ENCRYPTED_DATA = 656"
definition COMPRESSED_DATA :: nat where "COMPRESSED_DATA = 678"
definition FIRMWARE_PKG_DATA :: nat where "FIRMWARE_PKG_DATA = 685"

definition RSAk :: nat where "RSAk = 645"
definition DSAk :: nat where "DSAk = 515"
definition ECDSAk :: nat where "ECDSAk = 518"

definition AES128CBCb :: nat where "AES128CBCb = 414"
definition AES192CBCb :: nat where "AES192CBCb = 434"
definition AES256CBCb :: nat where "AES256CBCb = 454"
definition DESb :: nat where "DESb = 69"
definition DES3b :: nat where "DES3b = 652"
definition AES128_WRAP :: nat where "AES128_WRAP = 417"
definition AES192_WRAP :: nat where "AES192_WRAP = 437"
definition AES256_WRAP :: nat where "AES256_WRAP = 457"

definition SHAh :: nat where "SHAh = 88"
definition SHA224h :: nat where "SHA224h = 417"
definition SHA256h :: nat where "SHA256h = 414"
definition SHA384h :: nat where "SHA384h = 415"
definition SHA512h :: nat where "SHA512h = 416"

definition CTC_SHAwDSA :: nat where "CTC_SHAwDSA = 517"
definition CTC_MD2wRSA :: nat where "CTC_MD2wRSA = 646"
definition CTC_MD5wRSA :: nat where "CTC_MD5wRSA = 648"
definition CTC_SHAwRSA :: nat where "CTC_SHAwRSA = 649"
definition CTC_SHA224wRSA :: nat where "CTC_SHA224wRSA = 658"
definition CTC_SHA256wRSA :: nat where "CTC_SHA256wRSA = 655"
definition CTC_SHA384wRSA :: nat where "CTC_SHA384wRSA = 656"
definition CTC_SHA512wRSA :: nat where "CTC_SHA512wRSA = 657"
definition CTC_SHAwECDSA :: nat where "CTC_SHAwECDSA = 520"
definition CTC_SHA224wECDSA :: nat where "CTC_SHA224wECDSA = 523"
definition CTC_SHA256wECDSA :: nat where "CTC_SHA256wECDSA = 524"
definition CTC_SHA384wECDSA :: nat where "CTC_SHA384wECDSA = 525"
definition CTC_SHA512wECDSA :: nat where "CTC_SHA512wECDSA = 526"

definition AES_BLOCK_SIZE :: nat where "AES_BLOCK_SIZE = 16"
definition DES_BLOCK_SIZE :: nat where "DES_BLOCK_SIZE = 8"
definition DES_KEYLEN :: nat where "DES_KEYLEN = 8"
definition DES3_KEYLEN :: nat where "DES3_KEYLEN = 24"
definition KEYID_SIZE :: nat where "KEYID_SIZE = 20"
definition MAX_OID_SZ :: nat where "MAX_OID_SZ = 32"
definition MAX_LENGTH_SZ :: nat where "MAX_LENGTH_SZ = 4"
definition MAX_PKCS7_CERTS :: nat where "MAX_PKCS7_CERTS = 4"
definition MAX_ENCRYPTED_KEY_SZ :: nat where "MAX_ENCRYPTED_KEY_SZ = 512"
definition WC_MAX_DIGEST_SIZE :: nat where "WC_MAX_DIGEST_SIZE = 64"
definition INVALID_DEVID :: int where "INVALID_DEVID = - 2"

datatype oid_type = oidHashType | oidSigType | oidKeyType | oidBlkType | oidIgnoreType

text \<open>The SignerIdentifier choice \<open>pkcs7->sidType\<close>; any other integer is \<open>SID_OTHER\<close>.\<close>

datatype sid_type = SID_ISSUER_AND_SERIAL_NUMBER | SID_SUBJECT_KEY_IDENTIFIER | SID_OTHER int

section \<open>The layers below pkcs7.c\<close>

text \<open>
  The fields of a certificate that \<open>ParseCert\<close> delivers and pkcs7.c reads.
\<close>

record DecodedCert =
  dc_publicKey :: "byte list"
  dc_keyOID :: nat
  dc_issuerHash :: "byte list"
  dc_issuerRaw :: "byte list"
  dc_serial :: "byte list"
  dc_extSubjKeyId :: "byte list"

text \<open>
  pkcs7.c is written against the ASN.1 layer (asn.c), the hash layer (hash.c), RSA, ECC,
  the block ciphers and the random number generator. None of them is in pkcs7.c, so each
  function of theirs that pkcs7.c calls is a field of the record \<open>ext\<close>, and every
  function of the model takes the record as its first argument: a theorem about the model
  holds for every behaviour of the layers below.

  The ASN.1 readers take the buffer, the index and the bound \<open>maxIdx\<close>; \<open>None\<close> is a
  negative return, \<open>Some (idx', v)\<close> the new index and the value read (for
  \<open>GetLength\<close>, \<open>GetSequence\<close> and \<open>GetSet\<close> the length, which is also what the C
  function returns). The ASN.1 writers return the bytes they put into their output
  buffer; the C function returns their number. A key is the byte string that the key
  decoder makes of its encoding. A hash computation (\<open>wc_HashInit\<close>, the
  \<open>wc_HashUpdate\<close> calls, \<open>wc_HashFinal\<close>) is one call of \<open>wc_Hash\<close> on the
  concatenation of the updates; a step that fails makes it \<open>Inl\<close>. Setting a cipher
  key and running the cipher is one call as well. A return code of a primitive is 0 or
  negative. \<open>error_code\<close> gives the number of an error code
  (wolfssl/wolfcrypt/error-crypt.h), for the places where the source compares a
  returned \<open>int\<close> with a number.
\<close>

record ext =
  GetLength :: "byte list \<Rightarrow> nat \<Rightarrow> nat \<Rightarrow> (nat \<times> nat) option"
  GetSequence :: "byte list \<Rightarrow> nat \<Rightarrow> nat \<Rightarrow> (nat \<times> nat) option"
  GetSet :: "byte list \<Rightarrow> nat \<Rightarrow> nat \<Rightarrow> (nat \<times> nat) option"
  GetMyVersion :: "byte list \<Rightarrow> nat \<Rightarrow> nat \<Rightarrow> (nat \<times> int) option"
  GetObjectId :: "byte list \<Rightarrow> nat \<Rightarrow> oid_type \<Rightarrow> nat \<Rightarrow> (nat \<times> nat) option"
  GetASNObjectId :: "byte list \<Rightarrow> nat \<Rightarrow> nat \<Rightarrow> (nat \<times> nat) option"
  GetAlgoId :: "byte list \<Rightarrow> nat \<Rightarrow> oid_type \<Rightarrow> nat \<Rightarrow> (nat \<times> nat) option"
  GetNameHash :: "byte list \<Rightarrow> nat \<Rightarrow> nat \<Rightarrow> (nat \<times> byte list) option"
  GetInt :: "byte list \<Rightarrow> nat \<Rightarrow> nat \<Rightarrow> nat option"
  wc_BerToDer :: "byte list \<Rightarrow> error + byte list"
  SetLength :: "nat \<Rightarrow> byte list"
  SetSequence :: "nat \<Rightarrow> byte list"
  SetSet :: "nat \<Rightarrow> byte list"
  SetOctetString :: "nat \<Rightarrow> byte list"
  SetImplicit :: "byte \<Rightarrow> nat \<Rightarrow> nat \<Rightarrow> byte list"
  SetExplicit :: "nat \<Rightarrow> nat \<Rightarrow> byte list"
  SetMyVersion :: "nat \<Rightarrow> bool \<Rightarrow> byte list"
  SetAlgoID :: "nat \<Rightarrow> oid_type \<Rightarrow> nat \<Rightarrow> byte list"
  SetSerialNumber :: "byte list \<Rightarrow> nat \<Rightarrow> byte list"
  GetAsnTimeString :: "(byte list) option"
  ParseCert :: "byte list \<Rightarrow> error + DecodedCert"
  wc_OidGetHash :: "nat \<Rightarrow> nat"
  wc_HashGetDigestSize :: "nat \<Rightarrow> error + nat"
  wc_Hash :: "nat \<Rightarrow> byte list \<Rightarrow> error + byte list"
  wc_InitRsaKey_ex :: "int \<Rightarrow> error option"
  wc_RsaPrivateKeyDecode :: "byte list \<Rightarrow> error + byte list"
  wc_RsaPublicKeyDecode :: "byte list \<Rightarrow> error + byte list"
  wc_RsaSSL_Sign :: "byte list \<Rightarrow> byte list \<Rightarrow> error + byte list"
  wc_RsaSSL_Verify :: "byte list \<Rightarrow> byte list \<Rightarrow> error + byte list"
  wc_RsaPrivateDecryptInline :: "byte list \<Rightarrow> byte list \<Rightarrow> error + byte list"
  wc_ecc_init_ex :: "int \<Rightarrow> error option"
  wc_EccPrivateKeyDecode :: "byte list \<Rightarrow> error + byte list"
  wc_EccPublicKeyDecode :: "byte list \<Rightarrow> nat \<Rightarrow> (error + byte list) \<times> nat"
  wc_ecc_sign_hash :: "byte list \<Rightarrow> byte list \<Rightarrow> error + byte list"
  wc_ecc_verify_hash :: "byte list \<Rightarrow> byte list \<Rightarrow> byte list \<Rightarrow> error + bool"
  wc_AesCbcEncrypt :: "byte list \<Rightarrow> byte list \<Rightarrow> byte list \<Rightarrow> error + byte list"
  wc_AesCbcDecrypt :: "byte list \<Rightarrow> byte list \<Rightarrow> byte list \<Rightarrow> error + byte list"
  wc_Des_CbcEncrypt :: "byte list \<Rightarrow> byte list \<Rightarrow> byte list \<Rightarrow> error + byte list"
  wc_Des_CbcDecrypt :: "byte list \<Rightarrow> byte list \<Rightarrow> byte list \<Rightarrow> error + byte list"
  wc_Des3_CbcEncrypt :: "byte list \<Rightarrow> byte list \<Rightarrow> byte list \<Rightarrow> error + byte list"
  wc_Des3_CbcDecrypt :: "byte list \<Rightarrow> byte list \<Rightarrow> byte list \<Rightarrow> error + byte list"
  wc_RNG_GenerateBlock :: "nat \<Rightarrow> error + byte list"
  error_code :: "error \<Rightarrow> int"

section \<open>The session\<close>

text \<open>
  \<open>PKCS7Attrib\<close> (an attribute the caller supplies) and \<open>PKCS7DecodedAttrib\<close>
  (an attribute read from a message): an encoded object identifier and a value.
\<close>

record PKCS7Attrib =
  oid :: "byte list"
  val :: "byte list"

text \<open>
  The fields of \<open>struct PKCS7\<close> that the modelled functions use. A pointer that may be
  NULL is an option; a buffer with its size field is a list (the size is its length)
  unless the code sets the two apart: \<open>content\<close> and \<open>contentSz\<close> are separate,
  since the detached SignedData encoder is given a size without bytes. \<open>cert\<close> is the
  array \<open>cert[MAX_PKCS7_CERTS]\<close> with \<open>certSz\<close>: an unused slot is the empty list.
  \<open>contentType\<close> holds the first \<open>contentTypeSz\<close> bytes of the array.
\<close>

record PKCS7 =
  content :: "byte list option"
  contentSz :: nat
  contentOID :: nat
  contentType :: "byte list"
  rng :: bool
  hashOID :: nat
  encryptOID :: nat
  devId :: int
  singleCert :: "byte list option"
  publicKey :: "byte list"
  publicKeyOID :: nat
  issuerHash :: "byte list"
  issuer :: "byte list"
  issuerSn :: "byte list"
  issuerSubjKeyId :: "byte list"
  sidType :: sid_type
  privateKey :: "byte list option"
  certList :: "byte list list"
  cert :: "byte list list"
  signedAttribs :: "PKCS7Attrib list option"
  signedAttribsSz :: nat
  unprotectedAttribs :: "PKCS7Attrib list option"
  unprotectedAttribsSz :: nat
  encryptionKey :: "byte list option"
  decodedAttrib :: "PKCS7Attrib list"
  noDegenerate :: bool
  contentDynamic :: "byte list option"

section \<open>Content types, block ciphers\<close>

text \<open>
  The table of \<open>wc_SetContentType\<close> (pkcs7.c 64-161): the octets of each content
  type identifier.
\<close>

definition content_type_octets :: "nat \<Rightarrow> byte list option" where
  "content_type_octets t =
     (if t = PKCS7_MSG then Some [0x2A, 0x86, 0x48, 0x86, 0xF7, 0x0D, 0x01, 0x07]
      else if t = DATA then Some [0x2A, 0x86, 0x48, 0x86, 0xF7, 0x0D, 0x01, 0x07, 0x01]
      else if t = SIGNED_DATA then Some [0x2A, 0x86, 0x48, 0x86, 0xF7, 0x0D, 0x01, 0x07, 0x02]
      else if t = ENVELOPED_DATA then Some [0x2A, 0x86, 0x48, 0x86, 0xF7, 0x0D, 0x01, 0x07, 0x03]
      else if t = SIGNED_AND_ENVELOPED_DATA
        then Some [0x2A, 0x86, 0x48, 0x86, 0xF7, 0x0D, 0x01, 0x07, 0x04]
      else if t = DIGESTED_DATA then Some [0x2A, 0x86, 0x48, 0x86, 0xF7, 0x0D, 0x01, 0x07, 0x05]
      else if t = ENCRYPTED_DATA then Some [0x2A, 0x86, 0x48, 0x86, 0xF7, 0x0D, 0x01, 0x07, 0x06]
      else if t = COMPRESSED_DATA
        then Some [0x2A, 0x86, 0x48, 0x86, 0xF7, 0x0D, 0x01, 0x09, 0x10, 0x01, 0x09]
      else if t = FIRMWARE_PKG_DATA
        then Some [0x2A, 0x86, 0x48, 0x86, 0xF7, 0x0D, 0x01, 0x09, 0x10, 0x01, 0x10]
      else None)"

text \<open>
  \<open>wc_SetContentType\<close>: the encoded identifier. An unknown type returns 0, which is
  not an error for the callers (they test \<open>ret < 0\<close>): the result is the empty
  encoding.
\<close>

definition wc_SetContentType :: "ext \<Rightarrow> nat \<Rightarrow> nat \<Rightarrow> error + byte list" where
  "wc_SetContentType x pkcs7TypeOID outputSz =
     (case content_type_octets pkcs7TypeOID of
        None \<Rightarrow> Inr []
      | Some typeName \<Rightarrow>
          if outputSz < MAX_LENGTH_SZ + 1 + length typeName then Inl BAD_FUNC_ARG
          else Inr (ASN_OBJECT_ID # SetLength x (length typeName) @ typeName))"

text \<open>\<open>wc_GetContentType\<close> (pkcs7.c 164-173).\<close>

definition wc_GetContentType :: "ext \<Rightarrow> byte list \<Rightarrow> nat \<Rightarrow> nat \<Rightarrow> error + (nat \<times> nat)" where
  "wc_GetContentType x input idx maxIdx =
     orE (GetObjectId x input idx oidIgnoreType maxIdx) ASN_PARSE_E"

text \<open>\<open>wc_PKCS7_GetOIDBlockSize\<close> and \<open>wc_PKCS7_GetOIDKeySize\<close> (pkcs7.c 176-251).\<close>

definition wc_PKCS7_GetOIDBlockSize :: "nat \<Rightarrow> error + nat" where
  "wc_PKCS7_GetOIDBlockSize oid' =
     (if oid' = AES128CBCb \<or> oid' = AES192CBCb \<or> oid' = AES256CBCb then Inr AES_BLOCK_SIZE
      else if oid' = DESb \<or> oid' = DES3b then Inr DES_BLOCK_SIZE
      else Inl ALGO_ID_E)"

definition wc_PKCS7_GetOIDKeySize :: "nat \<Rightarrow> error + nat" where
  "wc_PKCS7_GetOIDKeySize oid' =
     (if oid' = AES128CBCb \<or> oid' = AES128_WRAP then Inr 16
      else if oid' = AES192CBCb \<or> oid' = AES192_WRAP then Inr 24
      else if oid' = AES256CBCb \<or> oid' = AES256_WRAP then Inr 32
      else if oid' = DESb then Inr DES_KEYLEN
      else if oid' = DES3b then Inr DES3_KEYLEN
      else Inl ALGO_ID_E)"

text \<open>
  \<open>wc_PKCS7_EncryptContent\<close> and \<open>wc_PKCS7_DecryptContent\<close> (pkcs7.c 3715-3864).
  The cipher is given the first \<open>keySz\<close> bytes of the key. The result is the content
  of \<open>out\<close>.
\<close>

definition wc_PKCS7_EncryptContent ::
  "ext \<Rightarrow> nat \<Rightarrow> byte list option \<Rightarrow> nat \<Rightarrow> byte list \<Rightarrow> nat \<Rightarrow> byte list \<Rightarrow> error + byte list" where
  "wc_PKCS7_EncryptContent x encryptOID' key keySz iv ivSz inp =
     (case key of
        None \<Rightarrow> Inl BAD_FUNC_ARG
      | Some k \<Rightarrow>
          if encryptOID' = AES128CBCb \<or> encryptOID' = AES192CBCb \<or> encryptOID' = AES256CBCb then
            (if (encryptOID' = AES128CBCb \<and> keySz \<noteq> 16) \<or>
                (encryptOID' = AES192CBCb \<and> keySz \<noteq> 24) \<or>
                (encryptOID' = AES256CBCb \<and> keySz \<noteq> 32) \<or>
                ivSz \<noteq> AES_BLOCK_SIZE
             then Inl BAD_FUNC_ARG
             else wc_AesCbcEncrypt x (take keySz k) iv inp)
          else if encryptOID' = DESb then
            (if keySz \<noteq> DES_KEYLEN \<or> ivSz \<noteq> DES_BLOCK_SIZE then Inl BAD_FUNC_ARG
             else wc_Des_CbcEncrypt x (take keySz k) iv inp)
          else if encryptOID' = DES3b then
            (if keySz \<noteq> DES3_KEYLEN \<or> ivSz \<noteq> DES_BLOCK_SIZE then Inl BAD_FUNC_ARG
             else wc_Des3_CbcEncrypt x (take keySz k) iv inp)
          else Inl ALGO_ID_E)"

definition wc_PKCS7_DecryptContent ::
  "ext \<Rightarrow> nat \<Rightarrow> byte list option \<Rightarrow> nat \<Rightarrow> byte list \<Rightarrow> nat \<Rightarrow> byte list \<Rightarrow> error + byte list" where
  "wc_PKCS7_DecryptContent x encryptOID' key keySz iv ivSz inp =
     (case key of
        None \<Rightarrow> Inl BAD_FUNC_ARG
      | Some k \<Rightarrow>
          if encryptOID' = AES128CBCb \<or> encryptOID' = AES192CBCb \<or> encryptOID' = AES256CBCb then
            (if (encryptOID' = AES128CBCb \<and> keySz \<noteq> 16) \<or>
                (encryptOID' = AES192CBCb \<and> keySz \<noteq> 24) \<or>
                (encryptOID' = AES256CBCb \<and> keySz \<noteq> 32) \<or>
                ivSz \<noteq> AES_BLOCK_SIZE
             then Inl BAD_FUNC_ARG
             else wc_AesCbcDecrypt x (take keySz k) iv inp)
          else if encryptOID' = DESb then
            (if keySz \<noteq> DES_KEYLEN \<or> ivSz \<noteq> DES_BLOCK_SIZE then Inl BAD_FUNC_ARG
             else wc_Des_CbcDecrypt x (take keySz k) iv inp)
          else if encryptOID' = DES3b then
            (if keySz \<noteq> DES3_KEYLEN \<or> ivSz \<noteq> DES_BLOCK_SIZE then Inl BAD_FUNC_ARG
             else wc_Des3_CbcDecrypt x (take keySz k) iv inp)
          else Inl ALGO_ID_E)"

text \<open>
  \<open>wc_PKCS7_GenerateIV\<close> (pkcs7.c 3867-3900); \<open>iv\<close> is never NULL at its call
  sites. Setting up the generator and drawing from it is one call of the primitive.
\<close>

definition wc_PKCS7_GenerateIV :: "ext \<Rightarrow> nat \<Rightarrow> error + byte list" where
  "wc_PKCS7_GenerateIV x ivSz =
     (if ivSz = 0 then Inl BAD_FUNC_ARG else wc_RNG_GenerateBlock x ivSz)"

section \<open>The attribute engine\<close>

text \<open>\<open>struct EncodedAttrib\<close>: the four pieces of an encoded attribute.\<close>

record EncodedAttrib =
  valueSeq :: "byte list"
  ea_oid :: "byte list"
  valueSet :: "byte list"
  ea_value :: "byte list"

definition ea_totalSz :: "EncodedAttrib \<Rightarrow> nat" where
  "ea_totalSz ea =
     length (ea_value ea) + length (valueSet ea) + length (ea_oid ea) + length (valueSeq ea)"

definition ea_empty :: EncodedAttrib where
  "ea_empty = \<lparr>valueSeq = [], ea_oid = [], valueSet = [], ea_value = []\<rparr>"

text \<open>One iteration of the loop of \<open>EncodeAttributes\<close> (pkcs7.c 684-710).\<close>

definition encode_attribute :: "ext \<Rightarrow> PKCS7Attrib \<Rightarrow> EncodedAttrib" where
  "encode_attribute x a =
     (let valueSet' = SetSet x (length (val a));
          valueSeq' = SetSequence x (length (val a) + length valueSet' + length (oid a))
      in \<lparr>valueSeq = valueSeq', ea_oid = oid a, valueSet = valueSet', ea_value = val a\<rparr>)"

text \<open>
  \<open>EncodeAttributes\<close>: the first \<open>min eaSz attribsSz\<close> attributes are encoded; the
  result is the encoded attributes and the returned total size. Reading past the end
  of the array \<open>attribs\<close> is a fault.
\<close>

definition EncodeAttributes ::
  "ext \<Rightarrow> nat \<Rightarrow> PKCS7Attrib list \<Rightarrow> nat \<Rightarrow> error + (EncodedAttrib list \<times> nat)" where
  "EncodeAttributes x eaSz attribs attribsSz =
     (let maxSz = min eaSz attribsSz
      in if length attribs < maxSz then Inl MEM_FAULT
         else let eas = map (encode_attribute x) (take maxSz attribs)
              in Inr (eas, sum_list (map ea_totalSz eas)))"

text \<open>
  \<open>FlattenAttributes\<close> (pkcs7.c 713-729): the first \<open>eaSz\<close> entries of the array,
  piece after piece.
\<close>

definition flatten_attribute :: "EncodedAttrib \<Rightarrow> byte list" where
  "flatten_attribute ea = valueSeq ea @ ea_oid ea @ valueSet ea @ ea_value ea"

definition FlattenAttributes :: "EncodedAttrib list \<Rightarrow> nat \<Rightarrow> error + byte list" where
  "FlattenAttributes ea eaSz =
     (if length ea < eaSz then Inl MEM_FAULT
      else Inr (concat (map flatten_attribute (take eaSz ea))))"

text \<open>
  The loop of \<open>wc_PKCS7_ParseAttribs\<close> (pkcs7.c 2148-2224) from index \<open>idx\<close> with
  \<open>found\<close> attributes read so far and the list \<open>acc\<close> of decoded attributes, newest
  first. The comparison \<open>(inSz - idx) < (word32)length\<close> is unsigned.
\<close>

function ParseAttribs_loop ::
  "ext \<Rightarrow> byte list \<Rightarrow> nat \<Rightarrow> nat \<Rightarrow> nat \<Rightarrow> PKCS7Attrib list
     \<Rightarrow> error + (nat \<times> PKCS7Attrib list)" where
  "ParseAttribs_loop x inb inSz idx found acc =
     (if idx < inSz then
        (case GetSequence x inb idx inSz of
           None \<Rightarrow> Inl ASN_PARSE_E
         | Some (oidIdx, len1) \<Rightarrow>
             (case GetObjectId x inb oidIdx oidIgnoreType inSz of
                None \<Rightarrow> Inl ASN_PARSE_E
              | Some (idx2, oidsum) \<Rightarrow>
                  (case GetSet x inb idx2 inSz of
                     None \<Rightarrow> Inl ASN_PARSE_E
                   | Some (idx3, len3) \<Rightarrow>
                       if nat ((int inSz - int idx3) mod 2 ^ 32) < len3 then Inl ASN_PARSE_E
                       else if idx2 < oidIdx \<or> length inb < idx2 \<or> length inb < idx3 + len3
                         then Inl MEM_FAULT
                       else if idx3 + len3 \<le> idx then Inl LOOPS
                       else ParseAttribs_loop x inb inSz (idx3 + len3) (Suc found)
                              (\<lparr>oid = take (idx2 - oidIdx) (drop oidIdx inb),
                                val = take len3 (drop idx3 inb)\<rparr> # acc))))
      else Inr (found, acc))"
  by pat_completeness auto
termination
  by (relation "measure (\<lambda>(x, inb, inSz, idx, found, acc). inSz - idx)") auto

text \<open>
  \<open>wc_PKCS7_ParseAttribs\<close>: the number of attributes and the session with the
  attributes put in front of \<open>decodedAttrib\<close>. What an error return leaves in the
  session is not modelled.
\<close>

definition wc_PKCS7_ParseAttribs ::
  "ext \<Rightarrow> PKCS7 \<Rightarrow> byte list \<Rightarrow> nat \<Rightarrow> error + (nat \<times> PKCS7)" where
  "wc_PKCS7_ParseAttribs x pkcs7 inb inSz =
     bindE (ParseAttribs_loop x inb inSz 0 0 (decodedAttrib pkcs7))
       (\<lambda>(found, attrs). Inr (found, pkcs7\<lparr>decodedAttrib := attrs\<rparr>))"

section \<open>EncryptedData\<close>

text \<open>
  \<open>wc_PKCS7_EncodeEncryptedData\<close> (pkcs7.c 5311-5551). \<open>output\<close> is \<open>True\<close> for
  a non-NULL output pointer. The result is the bytes written to \<open>output\<close>; the C
  function returns their number, the \<open>int idx\<close>.

  The integers are those of the source. The pad size is computed by
  \<open>wc_PKCS7_GetPadSize\<close> on 32-bit values, and \<open>encryptedOutSz\<close> is the 32-bit sum
  \<open>pkcs7->contentSz + padSz\<close> stored in an \<open>int\<close>: from \<open>2^31\<close> on it is
  negative, and the allocation of \<open>plain\<close> with that size fails (\<open>MEMORY_E\<close>).
  Other allocations do not fail in the model. The sizes of the pieces are \<open>int\<close>
  variables and are added as such: a sum from \<open>2^31\<close> on is a signed overflow, a
  fault here. \<open>attribsSz\<close> and \<open>attribsSetSz\<close> are \<open>word32\<close> variables, so
  that the last two additions of line 5485 are made on 32 bits without a sign and the
  result is stored in the \<open>int totalSz\<close>. The writers of the headers take the
  size as a \<open>word32\<close>. The number of attributes is handed to \<open>EncodeAttributes\<close>
  and \<open>FlattenAttributes\<close> as an \<open>int\<close>: a negative one encodes no attribute.
  The total is compared with \<open>(int)outputSz\<close>, which is negative for
  \<open>outputSz\<close> from \<open>2^31\<close> on. Writing more bytes than the caller declared with
  \<open>outputSz\<close> is a fault.
\<close>

definition wc_PKCS7_EncodeEncryptedData ::
  "ext \<Rightarrow> PKCS7 \<Rightarrow> bool \<Rightarrow> word32 \<Rightarrow> error + byte list" where
  "wc_PKCS7_EncodeEncryptedData x pkcs7 output outputSz =
     (if content pkcs7 = None \<or> contentSz pkcs7 = 0 \<or> encryptOID pkcs7 = 0 \<or>
         encryptionKey pkcs7 = None \<or> encryptionKey pkcs7 = Some [] then Inl BAD_FUNC_ARG
      else if \<not> output \<or> outputSz = 0 then Inl BAD_FUNC_ARG
      else
        bindE (wc_SetContentType x ENCRYPTED_DATA 20) (\<lambda>outerContentType.
        let ver = (if unprotectedAttribsSz pkcs7 > 0 then SetMyVersion x 2 False
                   else SetMyVersion x 0 False) in
        bindE (wc_SetContentType x (contentOID pkcs7) MAX_OID_SZ) (\<lambda>contentType'.
        bindE (wc_PKCS7_GetOIDBlockSize (encryptOID pkcs7)) (\<lambda>blockSz.
        let padSz = wc_PKCS7_GetPadSize (of_nat (contentSz pkcs7)) (of_nat blockSz) in
        if sint padSz < 0 then Inl BAD_FUNC_ARG
        else
          let encryptedOutSz = unat (of_nat (contentSz pkcs7) + padSz) in
          if sint (of_nat (contentSz pkcs7) + padSz) < 0 then Inl MEMORY_E
          else
          (case wc_PKCS7_PadData (content pkcs7) (of_nat (contentSz pkcs7))
                  (Some (replicate encryptedOutSz 0)) (of_nat encryptedOutSz) (of_nat blockSz) of
             None \<Rightarrow> Inl MEM_FAULT
           | Some (ret, plain') \<Rightarrow>
               if sint ret < 0 then Inl BUFFER_E
               else
                 let plain = (case plain' of None \<Rightarrow> [] | Some p \<Rightarrow> p);
                     ivOctetString = SetOctetString x blockSz;
                     contentEncAlgo = SetAlgoID x (encryptOID pkcs7) oidBlkType
                                        (length ivOctetString + blockSz) in
                 if contentEncAlgo = [] then Inl BAD_FUNC_ARG
                 else
                   bindE (wc_PKCS7_GenerateIV x blockSz) (\<lambda>tmpIv.
                   bindE (wc_PKCS7_EncryptContent x (encryptOID pkcs7) (encryptionKey pkcs7)
                            (length (the (encryptionKey pkcs7))) tmpIv blockSz plain)
                     (\<lambda>encryptedContent.
                   let encContentOctet = SetImplicit x ASN_OCTET_STRING 0 encryptedOutSz;
                       innerSz = int (length contentType') + int (length contentEncAlgo) +
                                 int (length ivOctetString) + int blockSz +
                                 int (length encContentOctet) + int encryptedOutSz in
                   if 2147483648 \<le> innerSz then Inl MEM_FAULT
                   else
                   let encContentSeq = SetSequence x (nat innerSz);
                       attribsCount = nat (sint (of_nat (unprotectedAttribsSz pkcs7) :: word32)) in
                   bindE
                     (if unprotectedAttribsSz pkcs7 \<noteq> 0 then
                        (case unprotectedAttribs pkcs7 of
                           None \<Rightarrow> Inl BAD_FUNC_ARG
                         | Some attrs \<Rightarrow>
                             bindE (EncodeAttributes x attribsCount attrs attribsCount)
                               (\<lambda>(attribs, attribsSz).
                             bindE (FlattenAttributes attribs attribsCount) (\<lambda>flatAttribs.
                             Inr (SetImplicit x ASN_SET 1 (unat (of_nat attribsSz :: word32)),
                                  flatAttribs, (of_nat attribsSz :: word32)))))
                      else Inr ([], [], 0))
                     (\<lambda>(attribSet, flatAttribs, attribsSz).
                   let intSz = int (length ver) + int (length encContentSeq) + innerSz in
                   if 2147483648 \<le> intSz then Inl MEM_FAULT
                   else
                   let totalSz = sint (of_int intSz + attribsSz +
                                       (of_nat (length attribSet) :: word32));
                       encDataSeq = SetSequence x (unat (of_int totalSz :: word32));
                       totalSz1 = totalSz + int (length encDataSeq);
                       outerContent = SetExplicit x 0 (unat (of_int totalSz1 :: word32));
                       totalSz2 = totalSz1 + int (length outerContentType) +
                                  int (length outerContent);
                       contentInfoSeq = SetSequence x (unat (of_int totalSz2 :: word32));
                       totalSz3 = totalSz2 + int (length contentInfoSeq);
                       written = contentInfoSeq @ outerContentType @ outerContent @ encDataSeq @
                                 ver @ encContentSeq @ contentType' @ contentEncAlgo @
                                 ivOctetString @ take blockSz tmpIv @ encContentOctet @
                                 take encryptedOutSz encryptedContent @
                                 (if unprotectedAttribsSz pkcs7 \<noteq> 0
                                  then attribSet @ flatAttribs else []) in
                   if 2147483648 \<le> totalSz3 then Inl MEM_FAULT
                   else if totalSz3 > sint outputSz then Inl BUFFER_E
                   else if unat outputSz < length written \<or>
                           2147483648 \<le> int (length written) then Inl MEM_FAULT
                   else Inr written))))))))"

text \<open>
  \<open>wc_PKCS7_DecodeUnprotectedAttributes\<close> (pkcs7.c 5554-5583): the new index and the
  session.
\<close>

definition wc_PKCS7_DecodeUnprotectedAttributes ::
  "ext \<Rightarrow> PKCS7 \<Rightarrow> byte list \<Rightarrow> nat \<Rightarrow> nat \<Rightarrow> error + (nat \<times> PKCS7)" where
  "wc_PKCS7_DecodeUnprotectedAttributes x pkcs7 pkiMsg pkiMsgSz inOutIdx =
     (if pkiMsgSz = 0 then Inl BAD_FUNC_ARG
      else
        bindE (read_byte pkiMsg inOutIdx) (\<lambda>b.
        if b \<noteq> (ASN_CONSTRUCTED OR ASN_CONTEXT_SPECIFIC OR 1) then Inl ASN_PARSE_E
        else
          bindE (orE (GetLength x pkiMsg (inOutIdx + 1) pkiMsgSz) ASN_PARSE_E) (\<lambda>(idx, attribLen).
          bindE (wc_PKCS7_ParseAttribs x pkcs7 (drop idx pkiMsg) attribLen) (\<lambda>(found, pkcs7').
          Inr (idx, pkcs7')))))"

text \<open>
  What a decoder hands back: the returned \<open>int\<close>, the count it gave to
  \<open>XMEMCPY(output, ...)\<close> and the bytes that a copy of a count within the decrypted
  content delivers. The count is an \<open>int\<close> in the source; a negative one becomes a
  huge \<open>size_t\<close>, and one above \<open>outputSz\<close> writes past the output buffer the
  caller declared.
\<close>

record decoded =
  d_ret :: int
  d_copied :: int
  d_output :: "byte list"

definition strip_padding :: "byte list \<Rightarrow> decoded" where
  "strip_padding plain =
     \<lparr>d_ret = fst (strip_pad plain), d_copied = fst (strip_pad plain),
      d_output = snd (strip_pad plain)\<rparr>"

text \<open>The same, written out: the last byte is taken as it is.\<close>

definition stripped :: "byte list \<Rightarrow> decoded" where
  "stripped plain =
     \<lparr>d_ret = int (length plain) - uint (last plain),
      d_copied = int (length plain) - uint (last plain),
      d_output = take (nat (int (length plain) - uint (last plain))) plain\<rparr>"

text \<open>
  The content of the buffer \<open>encryptedContent\<close> after the cipher has decrypted it in
  place: \<open>plain\<close> over the first bytes of the \<open>sz\<close> bytes of cipher text.
\<close>

definition decrypted_in_place :: "byte list \<Rightarrow> byte list \<Rightarrow> byte list" where
  "decrypted_in_place enc plain = take (length enc) (plain @ drop (length plain) enc)"

text \<open>
  What \<open>wc_PKCS7_DecodeEncryptedData\<close> knows when it reaches its last check
  (pkcs7.c 5710): the version it read, whether it saw unprotected attributes, and the
  decrypted content.
\<close>

record enc_state =
  es_version :: int
  es_haveAttribs :: bool
  es_plain :: "byte list"
  es_pkcs7 :: PKCS7

text \<open>
  \<open>wc_PKCS7_DecodeEncryptedData\<close> (pkcs7.c 5586-5722) is modelled in the order of
  its lines. First the argument checks and the headers up to the version (lines
  5601-5634): the index behind the version, and the version.
\<close>

definition DecodeEncryptedData_header ::
  "ext \<Rightarrow> PKCS7 \<Rightarrow> byte list option \<Rightarrow> nat \<Rightarrow> bool \<Rightarrow> nat \<Rightarrow> error + (nat \<times> int)" where
  "DecodeEncryptedData_header x pkcs7 pkiMsg' pkiMsgSz output outputSz =
     (if encryptionKey pkcs7 = None \<or> encryptionKey pkcs7 = Some [] then Inl BAD_FUNC_ARG
      else if pkiMsg' = None \<or> pkiMsgSz = 0 \<or> \<not> output \<or> outputSz = 0 then Inl BAD_FUNC_ARG
      else
        let pkiMsg = the pkiMsg' in
        bindE (orE (GetSequence x pkiMsg 0 pkiMsgSz) ASN_PARSE_E) (\<lambda>(idx, len).
        bindE (wc_GetContentType x pkiMsg idx pkiMsgSz) (\<lambda>(idx, contentType').
        if contentType' \<noteq> ENCRYPTED_DATA then Inl PKCS7_OID_E
        else
          bindE (read_byte pkiMsg idx) (\<lambda>b.
          if b \<noteq> (ASN_CONSTRUCTED OR ASN_CONTEXT_SPECIFIC OR 0) then Inl ASN_PARSE_E
          else
            bindE (orE (GetLength x pkiMsg (idx + 1) pkiMsgSz) ASN_PARSE_E) (\<lambda>(idx, len).
            bindE (orE (GetSequence x pkiMsg idx pkiMsgSz) ASN_PARSE_E) (\<lambda>(idx, len).
            orE (GetMyVersion x pkiMsg idx pkiMsgSz) ASN_PARSE_E))))))"

text \<open>
  Then the EncryptedContentInfo and the decryption (lines 5636-5688), from the index
  \<open>idx\<close>: the index behind the encrypted content, and the content of the buffer
  \<open>encryptedContent\<close> after the decryption in place.
\<close>

definition DecodeEncryptedData_content ::
  "ext \<Rightarrow> PKCS7 \<Rightarrow> byte list \<Rightarrow> nat \<Rightarrow> nat \<Rightarrow> error + (nat \<times> byte list)" where
  "DecodeEncryptedData_content x pkcs7 pkiMsg pkiMsgSz idx =
     bindE (orE (GetSequence x pkiMsg idx pkiMsgSz) ASN_PARSE_E) (\<lambda>(idx, len).
     bindE (wc_GetContentType x pkiMsg idx pkiMsgSz) (\<lambda>(idx, contentType').
     bindE (orE (GetAlgoId x pkiMsg idx oidBlkType pkiMsgSz) ASN_PARSE_E) (\<lambda>(idx, encOID).
     bindE (wc_PKCS7_GetOIDBlockSize encOID) (\<lambda>expBlockSz.
     bindE (read_byte pkiMsg idx) (\<lambda>b.
     if b \<noteq> ASN_OCTET_STRING then Inl ASN_PARSE_E
     else
       bindE (orE (GetLength x pkiMsg (idx + 1) pkiMsgSz) ASN_PARSE_E) (\<lambda>(idx, len).
       if len \<noteq> expBlockSz then Inl ASN_PARSE_E
       else
         bindE (read_bytes pkiMsg idx len) (\<lambda>tmpIv.
         let idx = idx + len in
         bindE (read_byte pkiMsg idx) (\<lambda>b.
         if b \<noteq> (ASN_CONTEXT_SPECIFIC OR 0) then Inl ASN_PARSE_E
         else
           bindE (orE (GetLength x pkiMsg (idx + 1) pkiMsgSz) ASN_PARSE_E)
             (\<lambda>(idx, encryptedContentSz).
           if encryptedContentSz = 0 then Inl ASN_PARSE_E
           else
             bindE (read_bytes pkiMsg idx encryptedContentSz) (\<lambda>encryptedContent.
             bindE (wc_PKCS7_DecryptContent x encOID (encryptionKey pkcs7)
                      (length (the (encryptionKey pkcs7))) tmpIv expBlockSz
                      encryptedContent) (\<lambda>plain'.
             Inr (idx + encryptedContentSz,
                  decrypted_in_place encryptedContent plain'))))))))))))"

text \<open>
  An error of \<open>wc_PKCS7_DecodeUnprotectedAttributes\<close> is returned as
  \<open>ASN_PARSE_E\<close> (line 5706); a fault or an endless loop is not a return code and
  stays what it is.
\<close>

definition as_parse_error :: "error + 'a \<Rightarrow> error + 'a" where
  "as_parse_error r =
     (case r of
        Inl e \<Rightarrow> if e = MEM_FAULT \<or> e = LOOPS then Inl e else Inl ASN_PARSE_E
      | Inr v \<Rightarrow> Inr v)"

text \<open>
  The three parts in sequence, up to and including the reading of the unprotected
  attributes (lines 5601-5708). \<open>pkiMsg\<close> is \<open>None\<close> for a NULL pointer,
  \<open>output\<close> is \<open>True\<close> for a non-NULL pointer. The copy of the plaintext to the
  output (line 5693) happens in this part, before the version is checked.
\<close>

definition DecodeEncryptedData_body ::
  "ext \<Rightarrow> PKCS7 \<Rightarrow> byte list option \<Rightarrow> nat \<Rightarrow> bool \<Rightarrow> nat \<Rightarrow> error + enc_state" where
  "DecodeEncryptedData_body x pkcs7 pkiMsg' pkiMsgSz output outputSz =
     bindE (DecodeEncryptedData_header x pkcs7 pkiMsg' pkiMsgSz output outputSz)
       (\<lambda>(idx, version).
     bindE (DecodeEncryptedData_content x pkcs7 (the pkiMsg') pkiMsgSz idx) (\<lambda>(idx, plain).
     if idx < pkiMsgSz then
       bindE (as_parse_error
                (wc_PKCS7_DecodeUnprotectedAttributes x (pkcs7\<lparr>decodedAttrib := []\<rparr>)
                   (the pkiMsg') pkiMsgSz idx)) (\<lambda>(idx, pkcs7b).
       Inr \<lparr>es_version = version, es_haveAttribs = True,
            es_plain = plain, es_pkcs7 = pkcs7b\<rparr>)
     else Inr \<lparr>es_version = version, es_haveAttribs = False,
               es_plain = plain, es_pkcs7 = pkcs7\<lparr>decodedAttrib := []\<rparr>\<rparr>))"

text \<open>
  \<open>wc_PKCS7_DecodeEncryptedData\<close>: the part above, then the check of the version
  (lines 5710-5716) and the return (line 5721).
\<close>

definition wc_PKCS7_DecodeEncryptedData ::
  "ext \<Rightarrow> PKCS7 \<Rightarrow> byte list option \<Rightarrow> nat \<Rightarrow> bool \<Rightarrow> nat \<Rightarrow> error + (decoded \<times> PKCS7)" where
  "wc_PKCS7_DecodeEncryptedData x pkcs7 pkiMsg pkiMsgSz output outputSz =
     bindE (DecodeEncryptedData_body x pkcs7 pkiMsg pkiMsgSz output outputSz) (\<lambda>s.
       if (\<not> es_haveAttribs s \<and> es_version s \<noteq> 0) \<or> (es_haveAttribs s \<and> es_version s \<noteq> 2)
       then Inl ASN_VERSION_E
       else Inr (strip_padding (es_plain s), es_pkcs7 s))"

section \<open>EnvelopedData: the recipients and the decoder\<close>

text \<open>
  \<open>wc_PKCS7_DecodeKtri\<close> (pkcs7.c 4296-4462), with RSA blinding set up inside the
  decryption primitive. \<open>idx\<close> is the index behind the version of the RecipientInfo,
  \<open>decryptedKey\<close> the bytes at the start of the caller's key buffer, \<open>recipFound\<close>
  the flag on entry. The array \<open>encryptedKey\<close> is a local variable that is not
  initialised: \<open>garbage\<close> is what it holds on entry. The encrypted key of the message
  is copied into it only when the issuer hash matches (line 4384), and the private key
  decrypts its first \<open>encryptedKeySz\<close> bytes in either case (line 4433). The result is
  the new index, the key buffer and the flag.
\<close>

definition wc_PKCS7_DecodeKtri ::
  "ext \<Rightarrow> PKCS7 \<Rightarrow> byte list \<Rightarrow> nat \<Rightarrow> byte list \<Rightarrow> nat \<Rightarrow> byte list \<Rightarrow> bool
     \<Rightarrow> error + (nat \<times> byte list \<times> bool)" where
  "wc_PKCS7_DecodeKtri x pkcs7 pkiMsg pkiMsgSz garbage idx decryptedKey recipFound =
     bindE (orE (GetSequence x pkiMsg idx pkiMsgSz) ASN_PARSE_E) (\<lambda>(idx, len).
     bindE (orE (GetNameHash x pkiMsg idx pkiMsgSz) ASN_PARSE_E) (\<lambda>(idx, issuerHash').
     let recipFound = (if take KEYID_SIZE issuerHash' = take KEYID_SIZE (issuerHash pkcs7)
                       then True else recipFound) in
     bindE (orE (GetInt x pkiMsg idx pkiMsgSz) ASN_PARSE_E) (\<lambda>idx.
     bindE (orE (GetAlgoId x pkiMsg idx oidKeyType pkiMsgSz) ASN_PARSE_E) (\<lambda>(idx, encOID).
     if encOID \<noteq> RSAk then Inl ALGO_ID_E
     else
       bindE (read_byte pkiMsg idx) (\<lambda>b.
       if b \<noteq> ASN_OCTET_STRING then Inl ASN_PARSE_E
       else
         bindE (orE (GetLength x pkiMsg (idx + 1) pkiMsgSz) ASN_PARSE_E)
           (\<lambda>(idx, encryptedKeySz).
         bindE (if recipFound then
                  (if MAX_ENCRYPTED_KEY_SZ < encryptedKeySz then Inl MEM_FAULT
                   else read_bytes pkiMsg idx encryptedKeySz)
                else Inr (take encryptedKeySz garbage)) (\<lambda>encryptedKey.
         let idx = idx + encryptedKeySz in
         bindE (okE (wc_InitRsaKey_ex x INVALID_DEVID)) (\<lambda>u.
         bindE (case privateKey pkcs7 of
                  Some k \<Rightarrow>
                    if k \<noteq> [] then wc_RsaPrivateKeyDecode x k
                    else if devId pkcs7 = INVALID_DEVID then Inl BAD_FUNC_ARG else Inr []
                | None \<Rightarrow>
                    if devId pkcs7 = INVALID_DEVID then Inl BAD_FUNC_ARG else Inr [])
           (\<lambda>privKey.
         bindE (wc_RsaPrivateDecryptInline x encryptedKey privKey) (\<lambda>outKey.
         if outKey = [] then Inr (idx, decryptedKey, recipFound)
         else Inr (idx, outKey @ drop (length outKey) decryptedKey, recipFound)))))))))))"

text \<open>
  The loop of \<open>wc_PKCS7_DecodeRecipientInfos\<close> (pkcs7.c 4985-5043), entered with
  \<open>recipFound = 0\<close>; at the head of an iteration \<open>idx\<close> and \<open>savedIdx\<close> are
  equal. \<open>wc_PKCS7_DecodeKari\<close> (pkcs7.c 4802-4964) and the functions under it are
  not modelled: the walk takes the function as its argument \<open>kari\<close>, so that what is
  proved of the walk holds whatever the key agreement branch does.
\<close>

type_synonym kari_fun =
  "PKCS7 \<Rightarrow> byte list \<Rightarrow> nat \<Rightarrow> nat \<Rightarrow> byte list \<Rightarrow> bool \<Rightarrow> error + (nat \<times> byte list \<times> bool)"

function DecodeRecipientInfos_loop ::
  "ext \<Rightarrow> kari_fun \<Rightarrow> PKCS7 \<Rightarrow> byte list \<Rightarrow> nat \<Rightarrow> byte list \<Rightarrow> nat \<Rightarrow> byte list
     \<Rightarrow> error + (nat \<times> byte list \<times> bool)" where
  "DecodeRecipientInfos_loop x kari pkcs7 pkiMsg pkiMsgSz garbage idx decryptedKey =
     (case (case GetSequence x pkiMsg idx pkiMsgSz of
              None \<Rightarrow> None
            | Some (idx1, len) \<Rightarrow> if 0 < len then Some idx1 else None) of
        Some idx1 \<Rightarrow>
          (case GetMyVersion x pkiMsg idx1 pkiMsgSz of
             None \<Rightarrow> Inr (idx, decryptedKey, False)
           | Some (idx2, version) \<Rightarrow>
               if version \<noteq> 0 then Inl ASN_VERSION_E
               else
                 (case wc_PKCS7_DecodeKtri x pkcs7 pkiMsg pkiMsgSz garbage idx2
                         decryptedKey False of
                    Inl e \<Rightarrow> Inl e
                  | Inr (idx3, key, found) \<Rightarrow>
                      if found then Inr (idx3, key, True)
                      else if idx < idx3 \<and> idx3 \<le> pkiMsgSz
                        then DecodeRecipientInfos_loop x kari pkcs7 pkiMsg pkiMsgSz garbage
                               idx3 key
                      else Inl LOOPS))
      | None \<Rightarrow>
          (case read_byte pkiMsg idx of
             Inl e \<Rightarrow> Inl e
           | Inr b \<Rightarrow>
               if b = (ASN_CONSTRUCTED OR ASN_CONTEXT_SPECIFIC OR 1) then
                 (case GetLength x pkiMsg (idx + 1) pkiMsgSz of
                    None \<Rightarrow> Inl ASN_PARSE_E
                  | Some (idx1, len) \<Rightarrow>
                      (case GetMyVersion x pkiMsg idx1 pkiMsgSz of
                         None \<Rightarrow> Inr (idx, decryptedKey, False)
                       | Some (idx2, version) \<Rightarrow>
                           if version \<noteq> 3 then Inl ASN_VERSION_E
                           else
                             (case kari pkcs7 pkiMsg pkiMsgSz idx2 decryptedKey False of
                                Inl e \<Rightarrow> Inl e
                              | Inr (idx3, key, found) \<Rightarrow>
                                  if found then Inr (idx3, key, True)
                                  else if idx < idx3 \<and> idx3 \<le> pkiMsgSz
                                    then DecodeRecipientInfos_loop x kari pkcs7 pkiMsg pkiMsgSz
                                           garbage idx3 key
                                  else Inl LOOPS)))
               else Inr (idx, decryptedKey, False)))"
  by pat_completeness auto
termination
  by (relation "measure (\<lambda>(x, kari, pkcs7, pkiMsg, pkiMsgSz, garbage, idx, key). pkiMsgSz - idx)")
     auto

text \<open>
  \<open>wc_PKCS7_DecodeRecipientInfos\<close> (pkcs7.c 4967-5046); the pointer arguments are
  never NULL at its call site. With \<open>recipFound\<close> set on entry the loop is not
  entered.
\<close>

definition wc_PKCS7_DecodeRecipientInfos ::
  "ext \<Rightarrow> kari_fun \<Rightarrow> PKCS7 \<Rightarrow> byte list \<Rightarrow> nat \<Rightarrow> byte list \<Rightarrow> nat \<Rightarrow> byte list \<Rightarrow> bool
     \<Rightarrow> error + (nat \<times> byte list \<times> bool)" where
  "wc_PKCS7_DecodeRecipientInfos x kari pkcs7 pkiMsg pkiMsgSz garbage idx decryptedKey
       recipFound =
     (if recipFound then Inr (idx, decryptedKey, True)
      else DecodeRecipientInfos_loop x kari pkcs7 pkiMsg pkiMsgSz garbage idx decryptedKey)"

text \<open>
  \<open>wc_PKCS7_DecodeEnvelopedData\<close> (pkcs7.c 5049-5306) is modelled in the order of
  its lines. First the argument checks, the headers, the version and the walk over the
  recipients (lines 5073-5168): the message (converted by the primitive
  \<open>wc_BerToDer\<close> when its outer length is indefinite), its size, the index behind
  the recipient found, and the key buffer. \<open>keybuf\<close> is what the key buffer
  \<open>decryptedKey\<close> holds on entry.
\<close>

definition DecodeEnvelopedData_header ::
  "ext \<Rightarrow> kari_fun \<Rightarrow> PKCS7 \<Rightarrow> byte list option \<Rightarrow> nat \<Rightarrow> byte list \<Rightarrow> byte list
     \<Rightarrow> bool \<Rightarrow> nat \<Rightarrow> error + (byte list \<times> nat \<times> nat \<times> byte list)" where
  "DecodeEnvelopedData_header x kari pkcs7 pkiMsg' pkiMsgSz' garbage keybuf output outputSz =
     (if singleCert pkcs7 = None \<or> singleCert pkcs7 = Some [] then Inl BAD_FUNC_ARG
      else if pkiMsg' = None \<or> pkiMsgSz' = 0 \<or> \<not> output \<or> outputSz = 0 then Inl BAD_FUNC_ARG
      else
        bindE (orE (GetSequence x (the pkiMsg') 0 pkiMsgSz') ASN_PARSE_E) (\<lambda>(idx, len).
        bindE (if len = 0 then read_byte (the pkiMsg') (idx - 1) else Inr 0) (\<lambda>b.
        bindE (if len = 0 \<and> b = 0x80 then
                 bindE (wc_BerToDer x (take pkiMsgSz' (the pkiMsg'))) (\<lambda>der.
                 bindE (orE (GetSequence x der 0 (length der)) ASN_PARSE_E) (\<lambda>(idx, len).
                 Inr (der, length der, idx)))
               else Inr (the pkiMsg', pkiMsgSz', idx)) (\<lambda>(pkiMsg, pkiMsgSz, idx).
        bindE (wc_GetContentType x pkiMsg idx pkiMsgSz) (\<lambda>(idx, contentType').
        if contentType' \<noteq> ENVELOPED_DATA then Inl PKCS7_OID_E
        else
          bindE (read_byte pkiMsg idx) (\<lambda>b.
          if b \<noteq> (ASN_CONSTRUCTED OR ASN_CONTEXT_SPECIFIC OR 0) then Inl ASN_PARSE_E
          else
            bindE (orE (GetLength x pkiMsg (idx + 1) pkiMsgSz) ASN_PARSE_E) (\<lambda>(idx, len).
            bindE (orE (GetSequence x pkiMsg idx pkiMsgSz) ASN_PARSE_E) (\<lambda>(idx, len).
            bindE (orE (GetMyVersion x pkiMsg idx pkiMsgSz) ASN_PARSE_E) (\<lambda>(idx, version).
            if (publicKeyOID pkcs7 = RSAk \<and> version \<noteq> 0) \<or>
               (publicKeyOID pkcs7 = ECDSAk \<and> version \<noteq> 2) then Inl ASN_VERSION_E
            else
              bindE (orE (GetSet x pkiMsg idx pkiMsgSz) ASN_PARSE_E) (\<lambda>(idx, len).
              bindE (wc_PKCS7_DecodeRecipientInfos x kari pkcs7 pkiMsg pkiMsgSz garbage idx
                       keybuf False) (\<lambda>(idx, decryptedKey, recipFound).
              if \<not> recipFound then Inl PKCS7_RECIP_E
              else Inr (pkiMsg, pkiMsgSz, idx, decryptedKey))))))))))))"

text \<open>
  Then the EncryptedContentInfo and the decryption (lines 5170-5290), from the index
  \<open>idx\<close>: the content of the buffer \<open>encryptedContent\<close> after the decryption in
  place.
\<close>

definition DecodeEnvelopedData_content ::
  "ext \<Rightarrow> byte list \<Rightarrow> nat \<Rightarrow> nat \<Rightarrow> byte list \<Rightarrow> error + byte list" where
  "DecodeEnvelopedData_content x pkiMsg pkiMsgSz idx decryptedKey =
     bindE (orE (GetSequence x pkiMsg idx pkiMsgSz) ASN_PARSE_E) (\<lambda>(idx, len).
     bindE (wc_GetContentType x pkiMsg idx pkiMsgSz) (\<lambda>(idx, contentType').
     bindE (orE (GetAlgoId x pkiMsg idx oidBlkType pkiMsgSz) ASN_PARSE_E) (\<lambda>(idx, encOID).
     bindE (wc_PKCS7_GetOIDKeySize encOID) (\<lambda>blockKeySz.
     bindE (wc_PKCS7_GetOIDBlockSize encOID) (\<lambda>expBlockSz.
     bindE (read_byte pkiMsg idx) (\<lambda>b.
     if b \<noteq> ASN_OCTET_STRING then Inl ASN_PARSE_E
     else
       bindE (orE (GetLength x pkiMsg (idx + 1) pkiMsgSz) ASN_PARSE_E) (\<lambda>(idx, len).
       if len \<noteq> expBlockSz then Inl ASN_PARSE_E
       else
         bindE (read_bytes pkiMsg idx len) (\<lambda>tmpIv.
         let idx = idx + len in
         bindE (read_byte pkiMsg idx) (\<lambda>b.
         let explicitOctet = (b = (ASN_CONTEXT_SPECIFIC OR ASN_CONSTRUCTED OR 0)) in
         if b \<noteq> (ASN_CONTEXT_SPECIFIC OR 0) \<and>
            b \<noteq> (ASN_CONTEXT_SPECIFIC OR ASN_CONSTRUCTED OR 0) then Inl ASN_PARSE_E
         else
           bindE (orE (GetLength x pkiMsg (idx + 1) pkiMsgSz) ASN_PARSE_E)
             (\<lambda>(idx, encryptedContentSz).
           if encryptedContentSz = 0 then Inl ASN_PARSE_E
           else
             bindE (if explicitOctet then
                      bindE (read_byte pkiMsg idx) (\<lambda>b.
                      if b \<noteq> ASN_OCTET_STRING then Inl ASN_PARSE_E
                      else
                        bindE (orE (GetLength x pkiMsg (idx + 1) pkiMsgSz) ASN_PARSE_E)
                          (\<lambda>(idx, sz). if sz = 0 then Inl ASN_PARSE_E else Inr (idx, sz)))
                    else Inr (idx, encryptedContentSz))
               (\<lambda>(idx, encryptedContentSz).
             bindE (read_bytes pkiMsg idx encryptedContentSz) (\<lambda>encryptedContent.
             bindE (wc_PKCS7_DecryptContent x encOID (Some decryptedKey) blockKeySz
                      tmpIv expBlockSz encryptedContent) (\<lambda>plain'.
             Inr (decrypted_in_place encryptedContent plain'))))))))))))))"

text \<open>The two parts in sequence (lines 5073-5290).\<close>

definition DecodeEnvelopedData_body ::
  "ext \<Rightarrow> kari_fun \<Rightarrow> PKCS7 \<Rightarrow> byte list option \<Rightarrow> nat \<Rightarrow> byte list \<Rightarrow> byte list
     \<Rightarrow> bool \<Rightarrow> nat \<Rightarrow> error + byte list" where
  "DecodeEnvelopedData_body x kari pkcs7 pkiMsg' pkiMsgSz' garbage keybuf output outputSz =
     bindE (DecodeEnvelopedData_header x kari pkcs7 pkiMsg' pkiMsgSz' garbage keybuf output
              outputSz) (\<lambda>(pkiMsg, pkiMsgSz, idx, decryptedKey).
     DecodeEnvelopedData_content x pkiMsg pkiMsgSz idx decryptedKey)"

text \<open>
  \<open>wc_PKCS7_DecodeEnvelopedData\<close>: the part above, then the removal of the padding
  and the return (lines 5292-5305).
\<close>

definition wc_PKCS7_DecodeEnvelopedData ::
  "ext \<Rightarrow> kari_fun \<Rightarrow> PKCS7 \<Rightarrow> byte list option \<Rightarrow> nat \<Rightarrow> byte list \<Rightarrow> byte list
     \<Rightarrow> bool \<Rightarrow> nat \<Rightarrow> error + decoded" where
  "wc_PKCS7_DecodeEnvelopedData x kari pkcs7 pkiMsg pkiMsgSz garbage keybuf output outputSz =
     bindE (DecodeEnvelopedData_body x kari pkcs7 pkiMsg pkiMsgSz garbage keybuf output outputSz)
       (\<lambda>plain. Inr (strip_padding plain))"

section \<open>SignedData: digest, signature and encoder\<close>

text \<open>
  Sizes of asn.h that bound the local buffers: \<open>MAX_PKCS7_DIGEST_SZ\<close> (pkcs7.c 58) is
  \<open>MAX_SEQ_SZ + MAX_ALGO_SZ + MAX_OCTET_STR_SZ + WC_MAX_DIGEST_SIZE\<close>.
\<close>

definition MAX_SEQ_SZ :: nat where "MAX_SEQ_SZ = 5"
definition MAX_ALGO_SZ :: nat where "MAX_ALGO_SZ = 20"
definition MAX_OCTET_STR_SZ :: nat where "MAX_OCTET_STR_SZ = 5"
definition MAX_SN_SZ :: nat where "MAX_SN_SZ = 35"

definition MAX_PKCS7_DIGEST_SZ :: nat where
  "MAX_PKCS7_DIGEST_SZ = MAX_SEQ_SZ + MAX_ALGO_SZ + MAX_OCTET_STR_SZ + WC_MAX_DIGEST_SIZE"

text \<open>
  The first \<open>n\<close> bytes of a buffer that was set to zero and then had \<open>xs\<close> written
  to its start.
\<close>

definition zeroed_with :: "nat \<Rightarrow> byte list \<Rightarrow> byte list" where
  "zeroed_with n xs = take n (xs @ replicate n 0)"

text \<open>
  \<open>wc_PKCS7_RsaSign\<close> and \<open>wc_PKCS7_EcdsaSign\<close> (pkcs7.c 734-833): the signature
  written to \<open>esd->encContentDigest\<close>; the C functions return its size. With no
  private key in the session and a device id the key is left as initialised (the
  empty key here).
\<close>

definition wc_PKCS7_RsaSign :: "ext \<Rightarrow> PKCS7 \<Rightarrow> byte list \<Rightarrow> error + byte list" where
  "wc_PKCS7_RsaSign x pkcs7 inp =
     (if \<not> rng pkcs7 then Inl BAD_FUNC_ARG
      else
        bindE (okE (wc_InitRsaKey_ex x (devId pkcs7))) (\<lambda>u.
        bindE (case privateKey pkcs7 of
                 Some k \<Rightarrow>
                   if k \<noteq> [] then wc_RsaPrivateKeyDecode x k
                   else if devId pkcs7 = INVALID_DEVID then Inl BAD_FUNC_ARG else Inr []
               | None \<Rightarrow>
                   if devId pkcs7 = INVALID_DEVID then Inl BAD_FUNC_ARG else Inr [])
          (\<lambda>privKey. wc_RsaSSL_Sign x inp privKey)))"

definition wc_PKCS7_EcdsaSign :: "ext \<Rightarrow> PKCS7 \<Rightarrow> byte list \<Rightarrow> error + byte list" where
  "wc_PKCS7_EcdsaSign x pkcs7 inp =
     (if \<not> rng pkcs7 then Inl BAD_FUNC_ARG
      else
        bindE (okE (wc_ecc_init_ex x (devId pkcs7))) (\<lambda>u.
        bindE (case privateKey pkcs7 of
                 Some k \<Rightarrow>
                   if k \<noteq> [] then wc_EccPrivateKeyDecode x k
                   else if devId pkcs7 = INVALID_DEVID then Inl BAD_FUNC_ARG else Inr []
               | None \<Rightarrow>
                   if devId pkcs7 = INVALID_DEVID then Inl BAD_FUNC_ARG else Inr [])
          (\<lambda>privKey. wc_ecc_sign_hash x inp privKey)))"

text \<open>
  The identifiers of the canned attributes (pkcs7.c 850-863): contentType,
  messageDigest, signingTime.
\<close>

definition contentTypeOid :: "byte list" where
  "contentTypeOid =
     [ASN_OBJECT_ID, 0x09, 0x2a, 0x86, 0x48, 0x86, 0xF7, 0x0d, 0x01, 0x09, 0x03]"

definition messageDigestOid :: "byte list" where
  "messageDigestOid =
     [ASN_OBJECT_ID, 0x09, 0x2a, 0x86, 0x48, 0x86, 0xf7, 0x0d, 0x01, 0x09, 0x04]"

definition signingTimeOid :: "byte list" where
  "signingTimeOid =
     [ASN_OBJECT_ID, 0x09, 0x2a, 0x86, 0x48, 0x86, 0xf7, 0x0d, 0x01, 0x09, 0x05]"

text \<open>
  Reading, after a function has returned, \<open>n\<close> bytes at the address of one of its
  local arrays that held \<open>xs\<close>: the frame is no longer the function's, and
  \<open>stale xs\<close> is what the memory holds by then.
\<close>

definition reread :: "(byte list \<Rightarrow> byte list) \<Rightarrow> byte list \<Rightarrow> byte list" where
  "reread stale xs = zeroed_with (length xs) (stale xs)"

text \<open>
  A buffer of \<open>n\<close> bytes from the heap into which \<open>xs\<close> was written from its
  start: the bytes behind \<open>xs\<close> were never written and hold what the memory held
  before. More than \<open>n\<close> bytes do not fit.
\<close>

definition allocated_with ::
  "(byte list \<Rightarrow> byte list) \<Rightarrow> nat \<Rightarrow> byte list \<Rightarrow> error + byte list" where
  "allocated_with stale n xs =
     (if n < length xs then Inl MEM_FAULT
      else Inr (xs @ drop (length xs) (zeroed_with n (stale []))))"

text \<open>
  \<open>wc_PKCS7_BuildSignedAttributes\<close> (pkcs7.c 838-922), for a build with a clock
  (three canned attributes), called as in line 1339 with the content type of the
  session: the seven entries of \<open>esd->signedAttribs\<close>, the count
  \<open>esd->signedAttribsCount\<close> and the size \<open>esd->signedAttribsSz\<close>. At most four
  attributes of the caller are encoded, all of them are counted. A NULL array of
  attributes with a non-zero count is read: a fault. \<open>EncodeAttributes\<close> takes
  the number of attributes as an \<open>int\<close>, so that a count from \<open>2^31\<close> on
  encodes none; the count and the size kept in \<open>esd\<close> are \<open>word32\<close>.

  An entry of \<open>esd->signedAttribs\<close> keeps the pointers \<open>oid\<close> and \<open>value\<close> of
  its attribute (\<open>EncodeAttributes\<close>, lines 694 and 698). For the canned attributes
  the three identifiers and the signing time are local arrays of this function (lines
  851-871), and the entries are read by \<open>FlattenAttributes\<close> after it has returned
  (line 1352): the fields \<open>ea_oid\<close> and \<open>ea_value\<close> of the result hold what is
  read then. The sizes were stored while the arrays were alive.
\<close>

definition wc_PKCS7_BuildSignedAttributes ::
  "ext \<Rightarrow> (byte list \<Rightarrow> byte list) \<Rightarrow> PKCS7 \<Rightarrow> nat \<Rightarrow> byte list
     \<Rightarrow> error + (EncodedAttrib list \<times> word32 \<times> word32)" where
  "wc_PKCS7_BuildSignedAttributes x stale pkcs7 hashType contentDigest =
     bindE (wc_HashGetDigestSize x hashType) (\<lambda>hashSz.
     bindE (orE (GetAsnTimeString x) (PRIM_E (- 1))) (\<lambda>signingTime.
     let cannedAttribs =
           [\<lparr>oid = contentTypeOid, val = contentType pkcs7\<rparr>,
            \<lparr>oid = messageDigestOid, val = take (hashSz + 2) contentDigest\<rparr>,
            \<lparr>oid = signingTimeOid, val = signingTime\<rparr>] in
     bindE (EncodeAttributes x 3 cannedAttribs 3) (\<lambda>(canned, cannedSz).
     let userCount = nat (sint (of_nat (signedAttribsSz pkcs7) :: word32)) in
     bindE (if min 4 userCount = 0 then Inr ([], 0)
            else (case signedAttribs pkcs7 of
                    None \<Rightarrow> Inl MEM_FAULT
                  | Some attrs \<Rightarrow> EncodeAttributes x 4 attrs userCount))
       (\<lambda>(user, userSz).
     Inr ((case canned of
             [c0, c1, c2] \<Rightarrow>
               [c0\<lparr>ea_oid := reread stale (ea_oid c0)\<rparr>,
                c1\<lparr>ea_oid := reread stale (ea_oid c1)\<rparr>,
                c2\<lparr>ea_oid := reread stale (ea_oid c2),
                   ea_value := reread stale (ea_value c2)\<rparr>]
           | _ \<Rightarrow> canned) @
          user @ replicate (4 - length user) ea_empty,
          3 + of_nat (signedAttribsSz pkcs7), of_nat cannedSz + of_nat userSz)))))"

text \<open>
  \<open>wc_PKCS7_SignedDataGetEncAlgoId\<close> (pkcs7.c 925-1019): the signature algorithm for
  the key type and the hash.
\<close>

definition wc_PKCS7_SignedDataGetEncAlgoId :: "PKCS7 \<Rightarrow> error + (nat \<times> oid_type)" where
  "wc_PKCS7_SignedDataGetEncAlgoId pkcs7 =
     (let algoId =
        (if publicKeyOID pkcs7 = RSAk then
           (if hashOID pkcs7 = SHAh then CTC_SHAwRSA
            else if hashOID pkcs7 = SHA224h then CTC_SHA224wRSA
            else if hashOID pkcs7 = SHA256h then CTC_SHA256wRSA
            else if hashOID pkcs7 = SHA384h then CTC_SHA384wRSA
            else if hashOID pkcs7 = SHA512h then CTC_SHA512wRSA
            else 0)
         else if publicKeyOID pkcs7 = ECDSAk then
           (if hashOID pkcs7 = SHAh then CTC_SHAwECDSA
            else if hashOID pkcs7 = SHA224h then CTC_SHA224wECDSA
            else if hashOID pkcs7 = SHA256h then CTC_SHA256wECDSA
            else if hashOID pkcs7 = SHA384h then CTC_SHA384wECDSA
            else if hashOID pkcs7 = SHA512h then CTC_SHA512wECDSA
            else 0)
         else 0)
      in if algoId = 0 then Inl BAD_FUNC_ARG else Inr (algoId, oidSigType))"

text \<open>
  The DigestInfo that \<open>wc_PKCS7_BuildDigestInfo\<close> and
  \<open>wc_PKCS7_BuildSignedDataDigest\<close> put together (pkcs7.c 1082-1100 and 1956-1970):
  the sequence header, the algorithm identifier of the hash with NULL parameters, the
  header of an octet string of \<open>hashSz\<close> bytes, and \<open>hashSz\<close> bytes of the digest
  buffer.
\<close>

definition DigestInfo :: "ext \<Rightarrow> nat \<Rightarrow> nat \<Rightarrow> byte list \<Rightarrow> byte list" where
  "DigestInfo x hashOID' hashSz digest =
     (let algoId = SetAlgoID x hashOID' oidHashType 0;
          digestStr = SetOctetString x hashSz;
          digestInfoSeq = SetSequence x (length algoId + length digestStr + hashSz)
      in digestInfoSeq @ algoId @ digestStr @ take hashSz digest)"

text \<open>
  \<open>wc_PKCS7_BuildDigestInfo\<close> (pkcs7.c 1022-1105). \<open>flatSignedAttribs\<close> is the
  buffer of the flattened attributes (its size is its length), \<open>hashType\<close> and
  \<open>contentDigest\<close> are the fields of \<open>esd\<close> that are read. The result is the
  DigestInfo and the field \<open>esd->contentAttribsDigest\<close> that is written.
\<close>

definition wc_PKCS7_BuildDigestInfo ::
  "ext \<Rightarrow> PKCS7 \<Rightarrow> byte list option \<Rightarrow> nat \<Rightarrow> byte list \<Rightarrow> nat
     \<Rightarrow> error + (byte list \<times> byte list)" where
  "wc_PKCS7_BuildDigestInfo x pkcs7 flatSignedAttribs hashType contentDigest digestInfoSz =
     bindE (wc_HashGetDigestSize x hashType) (\<lambda>hashSz.
     bindE (if signedAttribsSz pkcs7 \<noteq> 0 then
              (case flatSignedAttribs of
                 None \<Rightarrow> Inl BAD_FUNC_ARG
               | Some flat \<Rightarrow>
                   bindE (wc_Hash x hashType (SetSet x (length flat) @ flat)) (\<lambda>h.
                   Inr (zeroed_with WC_MAX_DIGEST_SIZE h)))
            else Inr (zeroed_with WC_MAX_DIGEST_SIZE (take hashSz (drop 2 contentDigest))))
       (\<lambda>contentAttribsDigest.
     let digestInfo = DigestInfo x (hashOID pkcs7) hashSz contentAttribsDigest;
         algoId = SetAlgoID x (hashOID pkcs7) oidHashType 0;
         digestStr = SetOctetString x hashSz;
         digestInfoSeq = SetSequence x (length algoId + length digestStr + hashSz) in
     if digestInfoSz < length digestInfoSeq + length algoId + length digestStr + hashSz
     then Inl BUFFER_E
     else Inr (digestInfo, contentAttribsDigest)))"

text \<open>
  \<open>wc_PKCS7_SignedDataBuildSignature\<close> (pkcs7.c 1108-1193): the signature
  \<open>esd->encContentDigest\<close> and the digest \<open>esd->contentAttribsDigest\<close>.
\<close>

definition wc_PKCS7_SignedDataBuildSignature ::
  "ext \<Rightarrow> PKCS7 \<Rightarrow> byte list option \<Rightarrow> nat \<Rightarrow> byte list \<Rightarrow> error + (byte list \<times> byte list)" where
  "wc_PKCS7_SignedDataBuildSignature x pkcs7 flatSignedAttribs hashType contentDigest =
     bindE (wc_PKCS7_BuildDigestInfo x pkcs7 flatSignedAttribs hashType contentDigest
              MAX_PKCS7_DIGEST_SZ) (\<lambda>(digestInfo, contentAttribsDigest).
     if publicKeyOID pkcs7 = RSAk then
       bindE (wc_PKCS7_RsaSign x pkcs7 digestInfo) (\<lambda>sig. Inr (sig, contentAttribsDigest))
     else if publicKeyOID pkcs7 = ECDSAk then
       bindE (wc_HashGetDigestSize x hashType) (\<lambda>hashSz.
       bindE (wc_PKCS7_EcdsaSign x pkcs7 (take hashSz contentAttribsDigest)) (\<lambda>sig.
       Inr (sig, contentAttribsDigest)))
     else Inl BAD_FUNC_ARG)"

text \<open>
  What \<open>PKCS7_EncodeSigned\<close> has put into \<open>esd\<close> for the SignerInfo when it
  assembles the output.
\<close>

record signer_parts =
  sp_signerVersion :: "byte list"
  sp_signerId :: "byte list"
  sp_signerDigAlgoId :: "byte list"
  sp_digEncAlgoId :: "byte list"
  sp_signedAttribSet :: "byte list"
  sp_flatSignedAttribs :: "byte list"
  sp_encContentDigest :: "byte list"
  sp_contentAttribsDigest :: "byte list"

text \<open>
  The sizes of \<open>PKCS7_EncodeSigned\<close> are \<open>word32\<close> variables, and their sums wrap.
  \<open>wlen xs\<close> is the size of a piece as the source keeps it.
\<close>

definition wlen :: "byte list \<Rightarrow> word32" where
  "wlen xs = of_nat (length xs)"


text \<open>
  Then the parts of the SignerInfo and the signature (lines 1293-1365). The buffer
  \<open>flatSignedAttribs\<close> is allocated with \<open>esd->signedAttribsSz\<close> bytes, and
  \<open>FlattenAttributes\<close>, which takes the count as an \<open>int\<close>, writes the first
  \<open>esd->signedAttribsCount\<close> entries of \<open>esd->signedAttribs\<close> into it.
\<close>

definition EncodeSigned_signer ::
  "ext \<Rightarrow> (byte list \<Rightarrow> byte list) \<Rightarrow> PKCS7 \<Rightarrow> nat \<Rightarrow> byte list \<Rightarrow> error + signer_parts" where
  "EncodeSigned_signer x stale pkcs7 hashType contentDigest =
     bindE (case sidType pkcs7 of
              SID_ISSUER_AND_SERIAL_NUMBER \<Rightarrow>
                (let issuerSn' = SetSerialNumber x (issuerSn pkcs7) MAX_SN_SZ;
                     issuerName = SetSequence x (length (issuer pkcs7));
                     issuerSnSeq = SetSequence x (unat (wlen issuerSn' + wlen issuerName +
                                                         wlen (issuer pkcs7)))
                 in Inr (SetMyVersion x 1 False,
                         issuerSnSeq @ issuerName @ issuer pkcs7 @ issuerSn'))
            | SID_SUBJECT_KEY_IDENTIFIER \<Rightarrow>
                (let issuerSKID = SetOctetString x KEYID_SIZE;
                     issuerSKIDSeq = SetExplicit x 0 (unat (wlen issuerSKID + of_nat KEYID_SIZE))
                 in Inr (SetMyVersion x 3 False,
                         issuerSKIDSeq @ issuerSKID @
                         zeroed_with KEYID_SIZE (issuerSubjKeyId pkcs7)))
            | SID_OTHER n \<Rightarrow> Inl SKID_E) (\<lambda>(signerVersion, signerId).
     let signerDigAlgoId = SetAlgoID x (hashOID pkcs7) oidHashType 0 in
     bindE (wc_PKCS7_SignedDataGetEncAlgoId pkcs7) (\<lambda>(digEncAlgoId, digEncAlgoType).
     let digEncAlgoId' = SetAlgoID x digEncAlgoId digEncAlgoType 0 in
     bindE (if signedAttribsSz pkcs7 \<noteq> 0 then
              (case wc_PKCS7_BuildSignedAttributes x stale pkcs7 hashType contentDigest of
                 Inl e \<Rightarrow> if e = MEM_FAULT then Inl MEM_FAULT else Inl MEMORY_E
               | Inr (esdAttribs, esdAttribsCount, esdAttribsSz) \<Rightarrow>
                   bindE (FlattenAttributes esdAttribs (nat (sint esdAttribsCount))) (\<lambda>flat.
                   bindE (allocated_with stale (unat esdAttribsSz) flat) (\<lambda>flatBuf.
                   Inr (Some flatBuf, SetImplicit x ASN_SET 0 (unat esdAttribsSz)))))
            else Inr (None, [])) (\<lambda>(flatSignedAttribs, signedAttribSet).
     bindE (wc_PKCS7_SignedDataBuildSignature x pkcs7 flatSignedAttribs hashType contentDigest)
       (\<lambda>(sig, contentAttribsDigest).
     Inr \<lparr>sp_signerVersion = signerVersion, sp_signerId = signerId,
          sp_signerDigAlgoId = signerDigAlgoId, sp_digEncAlgoId = digEncAlgoId',
          sp_signedAttribSet = signedAttribSet,
          sp_flatSignedAttribs = (case flatSignedAttribs of None \<Rightarrow> [] | Some f \<Rightarrow> f),
          sp_encContentDigest = sig,
          sp_contentAttribsDigest = contentAttribsDigest\<rparr>))))"

text \<open>
  The SignerInfo as it is written to the output (lines 1476-1517): the version, the
  signer identifier, the digest algorithm, the signed attributes under their IMPLICIT
  [0] header, the signature algorithm and the signature; and its size
  \<open>signerInfoSz\<close> as the lines 1298-1371 add it up.
\<close>

definition signer_info_body :: "ext \<Rightarrow> signer_parts \<Rightarrow> byte list" where
  "signer_info_body x sp =
     sp_signerVersion sp @ sp_signerId sp @ sp_signerDigAlgoId sp @
     (if sp_flatSignedAttribs sp \<noteq> [] then sp_signedAttribSet sp @ sp_flatSignedAttribs sp
      else []) @
     sp_digEncAlgoId sp @ SetOctetString x (length (sp_encContentDigest sp)) @
     sp_encContentDigest sp"

definition signer_info_size :: "ext \<Rightarrow> signer_parts \<Rightarrow> word32" where
  "signer_info_size x sp =
     wlen (sp_signerId sp) + wlen (sp_signerVersion sp) + wlen (sp_signerDigAlgoId sp) +
     wlen (sp_digEncAlgoId sp) + wlen (sp_flatSignedAttribs sp) +
     wlen (sp_signedAttribSet sp) +
     wlen (SetOctetString x (length (sp_encContentDigest sp))) +
     wlen (sp_encContentDigest sp)"

text \<open>
  Last the sizes and the pieces of the output (lines 1367-1406 and 1424-1517): the head
  (up to the header of the content), the foot (certificates and SignerInfos), and the
  sizes \<open>totalSz\<close> and \<open>total2Sz\<close>. The certificates are written in the order of
  the list.
\<close>

definition EncodeSigned_layout ::
  "ext \<Rightarrow> PKCS7 \<Rightarrow> byte list \<Rightarrow> signer_parts
     \<Rightarrow> byte list \<times> byte list \<times> word32 \<times> word32" where
  "EncodeSigned_layout x pkcs7 signedDataOid sp =
     (let cSz = (of_nat (contentSz pkcs7) :: word32);
          innerOctets = SetOctetString x (contentSz pkcs7);
          innerContSeq = SetExplicit x 0 (unat (wlen innerOctets + cSz));
          contentInfoSeq = SetSequence x (unat (cSz + wlen innerOctets +
                             wlen (contentType pkcs7) + wlen innerContSeq));
          signerInfoSz0 = signer_info_size x sp;
          signerInfoSeq = SetSequence x (unat signerInfoSz0);
          signerInfoSz1 = signerInfoSz0 + wlen signerInfoSeq;
          signerInfoSet = SetSet x (unat signerInfoSz1);
          signerInfoSz = signerInfoSz1 + wlen signerInfoSet;
          certSetSz = (of_nat (sum_list (map length (certList pkcs7))) :: word32);
          certsSet = SetImplicit x ASN_SET 0 (unat certSetSz);
          singleDigAlgoId = SetAlgoID x (hashOID pkcs7) oidHashType 0;
          digAlgoIdSet = SetSet x (length singleDigAlgoId);
          version = SetMyVersion x 1 False;
          totalSz0 = wlen version + wlen singleDigAlgoId + wlen digAlgoIdSet +
                     wlen contentInfoSeq + wlen (contentType pkcs7) +
                     wlen innerContSeq + wlen innerOctets + cSz;
          total2Sz = wlen certsSet + certSetSz + signerInfoSz;
          innerSeq = SetSequence x (unat (totalSz0 + total2Sz));
          totalSz1 = totalSz0 + wlen innerSeq;
          outerContent = SetExplicit x 0 (unat (totalSz1 + total2Sz));
          totalSz2 = totalSz1 + wlen outerContent + wlen signedDataOid;
          outerSeq = SetSequence x (unat (totalSz2 + total2Sz));
          totalSz3 = totalSz2 + wlen outerSeq;
          head = outerSeq @ signedDataOid @ outerContent @ innerSeq @ version @
                 digAlgoIdSet @ singleDigAlgoId @ contentInfoSeq @ contentType pkcs7 @
                 innerContSeq @ innerOctets;
          foot = certsSet @ concat (certList pkcs7) @ signerInfoSet @ signerInfoSeq @
                 signer_info_body x sp
      in (head, foot, totalSz3, total2Sz))"




section \<open>SignedData: verification\<close>

text \<open>An empty session: \<open>wc_PKCS7_Init\<close> (pkcs7.c 279-296) sets every field to zero.\<close>

definition PKCS7_zero :: PKCS7 where
  "PKCS7_zero = \<lparr>
     content = None, contentSz = 0, contentOID = 0, contentType = [], rng = False,
     hashOID = 0, encryptOID = 0, devId = 0, singleCert = None, publicKey = [],
     publicKeyOID = 0, issuerHash = replicate 20 0, issuer = [], issuerSn = [],
     issuerSubjKeyId = replicate 20 0, sidType = SID_OTHER 0, privateKey = None,
     certList = [], cert = replicate 4 [], signedAttribs = None, signedAttribsSz = 0,
     unprotectedAttribs = None, unprotectedAttribsSz = 0, encryptionKey = None,
     decodedAttrib = [], noDegenerate = False, contentDynamic = None \<rparr>"

text \<open>
  \<open>wc_PKCS7_InitWithCert\<close> (pkcs7.c 309-397): the return code and the session. The
  session is set to zero but for the device id; with a certificate, the certificate is
  kept and its fields are copied. A certificate is its bytes, so that a NULL pointer
  with a non-zero size does not occur.
\<close>

definition wc_PKCS7_InitWithCert ::
  "ext \<Rightarrow> PKCS7 \<Rightarrow> byte list option \<Rightarrow> error option \<times> PKCS7" where
  "wc_PKCS7_InitWithCert x pkcs7 derCert =
     (let p0 = PKCS7_zero\<lparr>devId := devId pkcs7\<rparr> in
      case derCert of
        None \<Rightarrow> (None, p0)
      | Some c \<Rightarrow>
          if c = [] then (None, p0)
          else
            let p1 = p0\<lparr>singleCert := Some c, certList := [c]\<rparr> in
            (case ParseCert x c of
               Inl e \<Rightarrow> (Some e, p1)
             | Inr dCert \<Rightarrow>
                 (None, p1\<lparr>publicKey := dc_publicKey dCert,
                            publicKeyOID := dc_keyOID dCert,
                            issuerHash := zeroed_with KEYID_SIZE (dc_issuerHash dCert),
                            issuer := dc_issuerRaw dCert,
                            issuerSn := dc_serial dCert,
                            issuerSubjKeyId := zeroed_with KEYID_SIZE (dc_extSubjKeyId dCert),
                            sidType := SID_ISSUER_AND_SERIAL_NUMBER\<rparr>)))"

text \<open>\<open>wc_PKCS7_AllowDegenerate\<close> (pkcs7.c 2227-2243).\<close>

definition wc_PKCS7_AllowDegenerate :: "PKCS7 \<Rightarrow> nat \<Rightarrow> PKCS7" where
  "wc_PKCS7_AllowDegenerate pkcs7 flag =
     (if flag \<noteq> 0 then pkcs7\<lparr>noDegenerate := False\<rparr> else pkcs7\<lparr>noDegenerate := True\<rparr>)"

text \<open>
  \<open>wc_PKCS7_SetContentType\<close> (pkcs7.c 3927-3947): \<open>contentType'\<close> is the memory
  from the pointer on.
\<close>

definition wc_PKCS7_SetContentType :: "PKCS7 \<Rightarrow> byte list option \<Rightarrow> nat \<Rightarrow> error + PKCS7" where
  "wc_PKCS7_SetContentType pkcs7 contentType' sz =
     (case contentType' of
        None \<Rightarrow> Inl BAD_FUNC_ARG
      | Some ct \<Rightarrow>
          if sz = 0 then Inl BAD_FUNC_ARG
          else if sz > MAX_OID_SZ then Inl BAD_FUNC_ARG
          else bindE (read_bytes ct 0 sz) (\<lambda>bytes. Inr (pkcs7\<lparr>contentType := bytes\<rparr>)))"

text \<open>
  \<open>wc_PKCS7_SetPublicKeyOID\<close> (pkcs7.c 2064-2129): the returned key type and the
  session.
\<close>

definition wc_PKCS7_SetPublicKeyOID :: "PKCS7 \<Rightarrow> nat \<Rightarrow> error + (nat \<times> PKCS7)" where
  "wc_PKCS7_SetPublicKeyOID pkcs7 sigOID =
     (if sigOID = CTC_MD2wRSA \<or> sigOID = CTC_MD5wRSA \<or> sigOID = CTC_SHAwRSA \<or>
         sigOID = CTC_SHA224wRSA \<or> sigOID = CTC_SHA256wRSA \<or> sigOID = CTC_SHA384wRSA \<or>
         sigOID = CTC_SHA512wRSA \<or> sigOID = RSAk
      then Inr (RSAk, pkcs7\<lparr>publicKeyOID := RSAk\<rparr>)
      else if sigOID = CTC_SHAwDSA \<or> sigOID = DSAk
      then Inr (DSAk, pkcs7\<lparr>publicKeyOID := DSAk\<rparr>)
      else if sigOID = CTC_SHAwECDSA \<or> sigOID = CTC_SHA224wECDSA \<or>
              sigOID = CTC_SHA256wECDSA \<or> sigOID = CTC_SHA384wECDSA \<or>
              sigOID = CTC_SHA512wECDSA \<or> sigOID = ECDSAk
      then Inr (ECDSAk, pkcs7\<lparr>publicKeyOID := ECDSAk\<rparr>)
      else Inl ASN_SIG_KEY_E)"

text \<open>
  The loop of \<open>wc_PKCS7_RsaVerify\<close> (pkcs7.c 1675-1717) over the certificate slots
  that are left. \<open>hash\<close> is the buffer of \<open>hashSz\<close> bytes to compare with. The
  result is the returned size.
\<close>

fun RsaVerify_loop ::
  "ext \<Rightarrow> PKCS7 \<Rightarrow> byte list \<Rightarrow> byte list \<Rightarrow> byte list list \<Rightarrow> error + nat" where
  "RsaVerify_loop x pkcs7 sig hash [] = Inl SIG_VERIFY_E"
| "RsaVerify_loop x pkcs7 sig hash (c # cs) =
     (if c = [] then RsaVerify_loop x pkcs7 sig hash cs
      else
        (case wc_InitRsaKey_ex x (devId pkcs7) of
           Some e \<Rightarrow> Inl e
         | None \<Rightarrow>
             (case ParseCert x c of
                Inl e \<Rightarrow> RsaVerify_loop x pkcs7 sig hash cs
              | Inr dCert \<Rightarrow>
                  (case wc_RsaPublicKeyDecode x (dc_publicKey dCert) of
                     Inl e \<Rightarrow> RsaVerify_loop x pkcs7 sig hash cs
                   | Inr key \<Rightarrow>
                       (case wc_RsaSSL_Verify x sig key of
                          Inl e \<Rightarrow> RsaVerify_loop x pkcs7 sig hash cs
                        | Inr digest \<Rightarrow>
                            if length hash = length digest \<and>
                               take (length digest) hash = digest
                            then Inr (length digest)
                            else RsaVerify_loop x pkcs7 sig hash cs)))))"

text \<open>\<open>wc_PKCS7_RsaVerify\<close> (pkcs7.c 1628-1732).\<close>

definition wc_PKCS7_RsaVerify ::
  "ext \<Rightarrow> PKCS7 \<Rightarrow> byte list option \<Rightarrow> byte list \<Rightarrow> error + nat" where
  "wc_PKCS7_RsaVerify x pkcs7 sig hash =
     (case sig of
        None \<Rightarrow> Inl BAD_FUNC_ARG
      | Some s \<Rightarrow> RsaVerify_loop x pkcs7 s hash (take MAX_PKCS7_CERTS (cert pkcs7)))"

text \<open>
  The loop of \<open>wc_PKCS7_EcdsaVerify\<close> (pkcs7.c 1786-1827). The key is decoded from
  \<open>pkcs7->publicKey\<close> at the index \<open>idx\<close>, which is declared before the loop and
  passed on from one slot to the next.
\<close>

fun EcdsaVerify_loop ::
  "ext \<Rightarrow> PKCS7 \<Rightarrow> byte list \<Rightarrow> byte list \<Rightarrow> nat \<Rightarrow> byte list list \<Rightarrow> error + nat" where
  "EcdsaVerify_loop x pkcs7 sig hash idx [] = Inl SIG_VERIFY_E"
| "EcdsaVerify_loop x pkcs7 sig hash idx (c # cs) =
     (if c = [] then EcdsaVerify_loop x pkcs7 sig hash idx cs
      else
        (case wc_ecc_init_ex x (devId pkcs7) of
           Some e \<Rightarrow> Inl e
         | None \<Rightarrow>
             (case ParseCert x c of
                Inl e \<Rightarrow> EcdsaVerify_loop x pkcs7 sig hash idx cs
              | Inr dCert \<Rightarrow>
                  (case wc_EccPublicKeyDecode x (publicKey pkcs7) idx of
                     (Inl e, idx') \<Rightarrow> EcdsaVerify_loop x pkcs7 sig hash idx' cs
                   | (Inr key, idx') \<Rightarrow>
                       (case wc_ecc_verify_hash x sig hash key of
                          Inl e \<Rightarrow> EcdsaVerify_loop x pkcs7 sig hash idx' cs
                        | Inr res \<Rightarrow>
                            if res then Inr 0
                            else EcdsaVerify_loop x pkcs7 sig hash idx' cs)))))"

text \<open>\<open>wc_PKCS7_EcdsaVerify\<close> (pkcs7.c 1737-1842).\<close>

definition wc_PKCS7_EcdsaVerify ::
  "ext \<Rightarrow> PKCS7 \<Rightarrow> byte list option \<Rightarrow> byte list \<Rightarrow> error + nat" where
  "wc_PKCS7_EcdsaVerify x pkcs7 sig hash =
     (case sig of
        None \<Rightarrow> Inl BAD_FUNC_ARG
      | Some s \<Rightarrow> EcdsaVerify_loop x pkcs7 s hash 0 (take MAX_PKCS7_CERTS (cert pkcs7)))"

text \<open>
  \<open>wc_PKCS7_BuildSignedDataDigest\<close> (pkcs7.c 1846-1983): the DigestInfo
  \<open>pkcs7Digest\<close> and the plain digest, its last \<open>hashSz\<close> bytes.
  \<open>signedAttrib\<close> is the memory from the pointer on.
\<close>

definition wc_PKCS7_BuildSignedDataDigest ::
  "ext \<Rightarrow> PKCS7 \<Rightarrow> byte list option \<Rightarrow> nat \<Rightarrow> byte list option \<Rightarrow> nat
     \<Rightarrow> error + (byte list \<times> byte list)" where
  "wc_PKCS7_BuildSignedDataDigest x pkcs7 signedAttrib signedAttribSz hashBuf hashBufSz =
     (let hashType = wc_OidGetHash x (hashOID pkcs7) in
      bindE (wc_HashGetDigestSize x hashType) (\<lambda>hashSz.
      if signedAttribSz > 0 \<and> signedAttrib = None then Inl BAD_FUNC_ARG
      else if signedAttribSz = 0 \<and> hashBuf \<noteq> None \<and> hashBufSz > 0 \<and> hashSz \<noteq> hashBufSz
        then Inl BAD_FUNC_ARG
      else if signedAttribSz = 0 \<and> \<not> (hashBuf \<noteq> None \<and> hashBufSz > 0) \<and>
              content pkcs7 = None
        then Inl BAD_FUNC_ARG
      else
        bindE (if hashBuf \<noteq> None \<and> hashBufSz > 0 \<and> signedAttribSz = 0 then
                 read_bytes (the hashBuf) 0 hashBufSz
               else if signedAttribSz > 0 then
                 bindE (read_bytes (the signedAttrib) 0 signedAttribSz) (\<lambda>attrs.
                 wc_Hash x hashType (SetSet x signedAttribSz @ attrs))
               else
                 bindE (read_bytes (the (content pkcs7)) 0 (contentSz pkcs7)) (\<lambda>c.
                 wc_Hash x hashType c)) (\<lambda>h.
        let digest = zeroed_with WC_MAX_DIGEST_SIZE h;
            pkcs7Digest = DigestInfo x (hashOID pkcs7) hashSz digest
        in Inr (pkcs7Digest, take hashSz digest))))"

text \<open>\<open>wc_PKCS7_SignedDataVerifySignature\<close> (pkcs7.c 1986-2063).\<close>

definition wc_PKCS7_SignedDataVerifySignature ::
  "ext \<Rightarrow> PKCS7 \<Rightarrow> byte list option \<Rightarrow> byte list option \<Rightarrow> nat \<Rightarrow> byte list option \<Rightarrow> nat
     \<Rightarrow> error + nat" where
  "wc_PKCS7_SignedDataVerifySignature x pkcs7 sig signedAttrib signedAttribSz hashBuf hashSz =
     bindE (wc_PKCS7_BuildSignedDataDigest x pkcs7 signedAttrib signedAttribSz hashBuf hashSz)
       (\<lambda>(pkcs7Digest, plainDigest).
     if publicKeyOID pkcs7 = RSAk then
       (case wc_PKCS7_RsaVerify x pkcs7 sig pkcs7Digest of
          Inr n \<Rightarrow> Inr n
        | Inl e \<Rightarrow> wc_PKCS7_RsaVerify x pkcs7 sig plainDigest)
     else if publicKeyOID pkcs7 = ECDSAk then
       wc_PKCS7_EcdsaVerify x pkcs7 sig plainDigest
     else Inl BAD_FUNC_ARG)"

section \<open>SignedData: decoder\<close>

text \<open>
  \<open>PKCS7_VerifySignedData\<close> (pkcs7.c 2245-2717) is modelled in the order of its
  lines. First the header up to the set of digest algorithms (lines 2274-2351): the
  message that is read from then on (converted from BER if need be) with its size, the
  total size, the index after the set and whether the set is empty.
\<close>

definition VerifySignedData_header ::
  "ext \<Rightarrow> PKCS7 \<Rightarrow> byte list option \<Rightarrow> nat \<Rightarrow> byte list option \<Rightarrow> nat
     \<Rightarrow> error + (byte list \<times> nat \<times> nat \<times> nat \<times> bool)" where
  "VerifySignedData_header x pkcs7 pkiMsg' pkiMsgSz' pkiMsg2 pkiMsg2Sz =
     (if pkiMsg' = None \<or> pkiMsgSz' = 0 then Inl BAD_FUNC_ARG
      else
        let totalSz = (if pkiMsg2 \<noteq> None \<and> pkiMsg2Sz > 0
                       then pkiMsgSz' + (pkiMsg2Sz + contentSz pkcs7) else pkiMsgSz') in
        bindE (orE (GetSequence x (the pkiMsg') 0 totalSz) ASN_PARSE_E) (\<lambda>(idx, len).
        bindE (if len = 0 then read_byte (the pkiMsg') (idx - 1) else Inr 0) (\<lambda>b.
        bindE (if len = 0 \<and> b = 0x80 then
                 bindE (wc_BerToDer x (take pkiMsgSz' (the pkiMsg'))) (\<lambda>der.
                 bindE (orE (GetSequence x der 0 (length der)) ASN_PARSE_E) (\<lambda>(idx, len).
                 Inr (der, length der, idx)))
               else Inr (the pkiMsg', pkiMsgSz', idx)) (\<lambda>(pkiMsg, pkiMsgSz, idx).
        bindE (wc_GetContentType x pkiMsg idx pkiMsgSz) (\<lambda>(idx, outerContentType).
        if outerContentType \<noteq> SIGNED_DATA then Inl PKCS7_OID_E
        else
          bindE (read_byte pkiMsg idx) (\<lambda>b.
          if b \<noteq> (ASN_CONSTRUCTED OR ASN_CONTEXT_SPECIFIC OR 0) then Inl ASN_PARSE_E
          else
            bindE (orE (GetLength x pkiMsg (idx + 1) totalSz) ASN_PARSE_E) (\<lambda>(idx, len).
            bindE (orE (GetSequence x pkiMsg idx totalSz) ASN_PARSE_E) (\<lambda>(idx, len).
            bindE (orE (GetMyVersion x pkiMsg idx pkiMsgSz) ASN_PARSE_E) (\<lambda>(idx, version).
            if version \<noteq> 1 then Inl ASN_VERSION_E
            else
              bindE (orE (GetSet x pkiMsg idx pkiMsgSz) ASN_PARSE_E) (\<lambda>(idx, len).
              if noDegenerate pkcs7 \<and> len = 0 then Inl PKCS7_NO_SIGNER_E
              else Inr (pkiMsg, pkiMsgSz, totalSz, idx + len, len = 0)))))))))))"

text \<open>
  What the decoder knows after the content (lines 2353-2508): the index, the buffer
  \<open>pkiMsg2\<close> that is read from then on with its size, the content and its size.
\<close>

record content_found =
  cf_idx :: nat
  cf_pkiMsg2 :: "byte list"
  cf_pkiMsg2Sz :: nat
  cf_content :: "byte list option"
  cf_contentSz :: nat

text \<open>
  The loop over the octet strings of a content in several parts (lines 2416-2433), from
  \<open>localIdx\<close> up to \<open>endIdx\<close>, with the bytes \<open>acc\<close> copied so far and their
  count \<open>i\<close>. The result says whether \<open>ret\<close> is still 0. An index that does not
  advance cannot come from the real length reader; it ends the loop here.
\<close>

function multipart_loop ::
  "ext \<Rightarrow> byte list \<Rightarrow> nat \<Rightarrow> nat \<Rightarrow> bool \<Rightarrow> nat \<Rightarrow> byte list \<Rightarrow> nat
     \<Rightarrow> error + (bool \<times> nat \<times> byte list \<times> nat)" where
  "multipart_loop x pkiMsg totalSz endIdx keepContent localIdx acc i =
     (if localIdx < endIdx then
        bindE (read_byte pkiMsg localIdx) (\<lambda>b.
        if b \<noteq> ASN_OCTET_STRING then Inr (False, localIdx + 1, acc, i)
        else
          (case GetLength x pkiMsg (localIdx + 1) totalSz of
             None \<Rightarrow> Inr (False, localIdx + 1, acc, i)
           | Some (li, len) \<Rightarrow>
               if len + li > endIdx then Inr (False, li, acc, i)
               else
                 bindE (if keepContent then read_bytes pkiMsg li len else Inr []) (\<lambda>chunk.
                 if li + len \<le> localIdx then Inl LOOPS
                 else multipart_loop x pkiMsg totalSz endIdx keepContent (li + len)
                        (acc @ chunk) (i + len))))
      else Inr (True, localIdx, acc, i))"
  by pat_completeness auto
termination
  by (relation "measure (\<lambda>(x, pkiMsg, totalSz, endIdx, keepContent, localIdx, acc, i).
                  endIdx - localIdx)") auto

text \<open>
  A content in one octet string (lines 2460-2493), from \<open>localIdx\<close>. \<open>None\<close> is
  the error code \<open>ASN_PARSE_E\<close> kept in \<open>ret\<close>. \<open>detached\<close> says that the
  caller gave a foot and a digest.
\<close>

definition content_single ::
  "ext \<Rightarrow> PKCS7 \<Rightarrow> bool \<Rightarrow> byte list \<Rightarrow> nat \<Rightarrow> byte list option \<Rightarrow> nat \<Rightarrow> nat \<Rightarrow> nat
     \<Rightarrow> error + content_found option" where
  "content_single x pkcs7 detached pkiMsg pkiMsgSz pkiMsg2 pkiMsg2Sz totalSz localIdx =
     bindE (read_byte pkiMsg localIdx) (\<lambda>b.
     if b \<noteq> ASN_OCTET_STRING then Inr None
     else
       (case GetLength x pkiMsg (localIdx + 1) totalSz of
          None \<Rightarrow> Inr None
        | Some (li, len) \<Rightarrow>
            if len > 0 then
              (if detached then
                 (if len \<noteq> contentSz pkcs7 then Inl BUFFER_E
                  else Inr (Some \<lparr>cf_idx = 0, cf_pkiMsg2 = the pkiMsg2,
                                   cf_pkiMsg2Sz = pkiMsg2Sz, cf_content = None,
                                   cf_contentSz = len\<rparr>))
               else Inr (Some \<lparr>cf_idx = li + len, cf_pkiMsg2 = pkiMsg,
                                cf_pkiMsg2Sz = pkiMsgSz, cf_content = Some (drop li pkiMsg),
                                cf_contentSz = len\<rparr>))
            else Inr (Some \<lparr>cf_idx = li, cf_pkiMsg2 = pkiMsg, cf_pkiMsg2Sz = pkiMsg2Sz,
                             cf_content = None, cf_contentSz = 0\<rparr>)))"

text \<open>
  A content in several parts (lines 2402-2459), from \<open>start\<close>: the buffer
  \<open>pkcs7->contentDynamic\<close> and what was found.
\<close>

definition content_multi ::
  "ext \<Rightarrow> PKCS7 \<Rightarrow> bool \<Rightarrow> byte list \<Rightarrow> nat \<Rightarrow> byte list option \<Rightarrow> nat \<Rightarrow> nat \<Rightarrow> nat
     \<Rightarrow> nat \<Rightarrow> error + (byte list option \<times> content_found option)" where
  "content_multi x pkcs7 detached pkiMsg pkiMsgSz pkiMsg2 pkiMsg2Sz totalSz start contentLen =
     bindE (multipart_loop x pkiMsg totalSz (start + contentLen) (\<not> detached) start [] 0)
       (\<lambda>(ok, localIdx, acc, i).
     let dyn = (if detached then contentDynamic pkcs7 else Some acc) in
     if \<not> ok then Inr (dyn, None)
     else if i > 0 then
       (if detached then
          (if i \<noteq> contentSz pkcs7 then Inl BUFFER_E
           else Inr (dyn, Some \<lparr>cf_idx = 0, cf_pkiMsg2 = the pkiMsg2,
                                 cf_pkiMsg2Sz = pkiMsg2Sz, cf_content = None,
                                 cf_contentSz = i\<rparr>))
        else Inr (dyn, Some \<lparr>cf_idx = localIdx, cf_pkiMsg2 = pkiMsg,
                              cf_pkiMsg2Sz = pkiMsgSz, cf_content = dyn,
                              cf_contentSz = i\<rparr>))
     else Inr (dyn, Some \<lparr>cf_idx = localIdx, cf_pkiMsg2 = pkiMsg, cf_pkiMsg2Sz = pkiMsg2Sz,
                           cf_content = None, cf_contentSz = 0\<rparr>))"

text \<open>
  The optional content (lines 2370-2493) from the index \<open>idx\<close> after the inner
  content type.
\<close>

definition content_octets ::
  "ext \<Rightarrow> PKCS7 \<Rightarrow> bool \<Rightarrow> byte list \<Rightarrow> nat \<Rightarrow> byte list option \<Rightarrow> nat \<Rightarrow> nat \<Rightarrow> nat
     \<Rightarrow> error + (byte list option \<times> content_found option)" where
  "content_octets x pkcs7 detached pkiMsg pkiMsgSz pkiMsg2 pkiMsg2Sz totalSz idx =
     bindE (read_byte pkiMsg idx) (\<lambda>b.
     if b \<noteq> (ASN_CONSTRUCTED OR ASN_CONTEXT_SPECIFIC OR 0) then
       Inr (contentDynamic pkcs7, None)
     else
       (case GetLength x pkiMsg (idx + 1) totalSz of
          None \<Rightarrow> Inr (contentDynamic pkcs7, None)
        | Some (localIdx, len) \<Rightarrow>
            if len = 0 then Inr (contentDynamic pkcs7, None)
            else
              bindE (read_byte pkiMsg localIdx) (\<lambda>b.
              if b = (ASN_OCTET_STRING OR ASN_CONSTRUCTED) then
                (case GetLength x pkiMsg (localIdx + 1) totalSz of
                   None \<Rightarrow> Inr (contentDynamic pkcs7, None)
                 | Some (start, contentLen) \<Rightarrow>
                     bindE (read_byte pkiMsg start) (\<lambda>b.
                     if b \<noteq> ASN_OCTET_STRING then Inr (contentDynamic pkcs7, None)
                     else
                       (case GetLength x pkiMsg (start + 1) totalSz of
                          None \<Rightarrow> Inr (contentDynamic pkcs7, None)
                        | Some (l2, len2) \<Rightarrow>
                            if l2 - start + len2 = contentLen then
                              bindE (content_single x pkcs7 detached pkiMsg pkiMsgSz pkiMsg2
                                       pkiMsg2Sz totalSz start) (\<lambda>r.
                              Inr (contentDynamic pkcs7, r))
                            else content_multi x pkcs7 detached pkiMsg pkiMsgSz pkiMsg2
                                   pkiMsg2Sz totalSz start contentLen)))
              else
                bindE (content_single x pkcs7 detached pkiMsg pkiMsgSz pkiMsg2 pkiMsg2Sz
                         totalSz localIdx) (\<lambda>r.
                Inr (contentDynamic pkcs7, r)))))"

text \<open>
  The inner ContentInfo (lines 2353-2508): the session (its buffer
  \<open>contentDynamic\<close>), the content type as pointer and size, and what was found. A
  content that cannot be read is an error only when the set of digest algorithms is
  not empty.
\<close>

definition VerifySignedData_content ::
  "ext \<Rightarrow> PKCS7 \<Rightarrow> byte list option \<Rightarrow> nat \<Rightarrow> byte list \<Rightarrow> nat \<Rightarrow> byte list option \<Rightarrow> nat
     \<Rightarrow> nat \<Rightarrow> nat \<Rightarrow> bool
     \<Rightarrow> error + (PKCS7 \<times> byte list \<times> nat \<times> content_found)" where
  "VerifySignedData_content x pkcs7 hashBuf hashSz pkiMsg pkiMsgSz pkiMsg2 pkiMsg2Sz totalSz
       idx0 degenerate =
     bindE (orE (GetSequence x pkiMsg idx0 totalSz) ASN_PARSE_E) (\<lambda>(localIdx, len).
     bindE (orE (GetASNObjectId x pkiMsg localIdx pkiMsgSz) ASN_PARSE_E) (\<lambda>(idx1, len).
     let contentType' = drop localIdx pkiMsg;
         contentTypeSz = len + (idx1 - localIdx);
         idx = idx1 + len;
         detached = (pkiMsg2 \<noteq> None \<and> pkiMsg2Sz > 0 \<and> hashBuf \<noteq> None \<and> hashSz > 0) in
     bindE (content_octets x pkcs7 detached pkiMsg pkiMsgSz pkiMsg2 pkiMsg2Sz totalSz idx)
       (\<lambda>(dyn, r).
     case r of
       Some cf \<Rightarrow> Inr (pkcs7\<lparr>contentDynamic := dyn\<rparr>, contentType', contentTypeSz, cf)
     | None \<Rightarrow>
         if \<not> degenerate then Inl ASN_PARSE_E
         else Inr (pkcs7\<lparr>contentDynamic := dyn\<rparr>, contentType', contentTypeSz,
                   \<lparr>cf_idx = idx, cf_pkiMsg2 = pkiMsg, cf_pkiMsg2Sz = pkiMsgSz,
                    cf_content = None, cf_contentSz = 0\<rparr>))))"

text \<open>
  The further certificates (lines 2553-2564): \<open>n\<close> slots are left, \<open>certIdx\<close> is
  the index of the next element. A slot whose element is not a sequence stays empty.
\<close>

fun more_certs :: "ext \<Rightarrow> byte list \<Rightarrow> nat \<Rightarrow> nat \<Rightarrow> nat \<Rightarrow> error + byte list list" where
  "more_certs x pkiMsg2 pkiMsg2Sz 0 certIdx = Inr []"
| "more_certs x pkiMsg2 pkiMsg2Sz (Suc n) certIdx =
     (if certIdx + 1 < pkiMsg2Sz then
        bindE (read_byte pkiMsg2 certIdx) (\<lambda>b.
        if b = (ASN_CONSTRUCTED OR ASN_SEQUENCE) then
          bindE (orE (GetLength x pkiMsg2 (certIdx + 1) pkiMsg2Sz) ASN_PARSE_E) (\<lambda>(ci, sz).
          bindE (more_certs x pkiMsg2 pkiMsg2Sz n (ci + sz)) (\<lambda>rest.
          Inr (take (sz + (ci - certIdx)) (drop certIdx pkiMsg2) # rest)))
        else
          bindE (more_certs x pkiMsg2 pkiMsg2Sz n (certIdx + 1)) (\<lambda>rest. Inr ([] # rest)))
      else Inr (replicate (Suc n) []))"

text \<open>
  The set of certificates (lines 2510-2568): the session and the index after the set.
  With a non-empty set the session is initialised again, which sets every field to
  zero but the device id and the two buffers that are put back; the return code of
  that call is not looked at.
\<close>

definition VerifySignedData_certs ::
  "ext \<Rightarrow> PKCS7 \<Rightarrow> byte list \<Rightarrow> nat \<Rightarrow> nat \<Rightarrow> error + (PKCS7 \<times> nat)" where
  "VerifySignedData_certs x pkcs7 pkiMsg2 pkiMsg2Sz idx0 =
     bindE (read_byte pkiMsg2 idx0) (\<lambda>b.
     if b = (ASN_CONSTRUCTED OR ASN_CONTEXT_SPECIFIC OR 0) then
       bindE (orE (GetLength x pkiMsg2 (idx0 + 1) pkiMsg2Sz) ASN_PARSE_E) (\<lambda>(idx, len).
       if len > 0 then
         bindE (read_byte pkiMsg2 idx) (\<lambda>b.
         bindE (if b = (ASN_CONSTRUCTED OR ASN_SEQUENCE) then
                  bindE (orE (GetLength x pkiMsg2 (idx + 1) pkiMsg2Sz) ASN_PARSE_E)
                    (\<lambda>(certIdx, certSz).
                  Inr (Some (take (certSz + (certIdx - idx)) (drop idx pkiMsg2)),
                       certSz + (certIdx - idx)))
                else Inr (None, 0)) (\<lambda>(cert0, certSz).
         let p1 = (snd (wc_PKCS7_InitWithCert x pkcs7 cert0))
                    \<lparr>contentDynamic := contentDynamic pkcs7\<rparr> in
         bindE (more_certs x pkiMsg2 pkiMsg2Sz (MAX_PKCS7_CERTS - 1) (idx + certSz))
           (\<lambda>rest.
         Inr (p1\<lparr>cert := (case cert0 of None \<Rightarrow> [] | Some c \<Rightarrow> c) # rest\<rparr>, idx + len))))
       else Inr (pkcs7, idx + len))
     else Inr (pkcs7, idx0))"

text \<open>
  The content type, the revocation lists and the header of the set of SignerInfos
  (lines 2570-2599): the session, the index and the length of the set.
\<close>

definition VerifySignedData_signerSet ::
  "ext \<Rightarrow> PKCS7 \<Rightarrow> byte list \<Rightarrow> nat \<Rightarrow> content_found \<Rightarrow> nat \<Rightarrow> bool
     \<Rightarrow> error + (PKCS7 \<times> nat \<times> nat)" where
  "VerifySignedData_signerSet x pkcs7 contentType' contentTypeSz cf idx0 degenerate =
     (let pkiMsg2 = cf_pkiMsg2 cf; pkiMsg2Sz = cf_pkiMsg2Sz cf;
          p1 = pkcs7\<lparr>content := cf_content cf, contentSz := cf_contentSz cf\<rparr> in
      case wc_PKCS7_SetContentType p1 (Some contentType') contentTypeSz of
        Inl e \<Rightarrow> if e = MEM_FAULT then Inl MEM_FAULT else Inl ASN_PARSE_E
      | Inr p2 \<Rightarrow>
          bindE (read_byte pkiMsg2 idx0) (\<lambda>b.
          bindE (if b = (ASN_CONSTRUCTED OR ASN_CONTEXT_SPECIFIC OR 1) then
                   bindE (orE (GetLength x pkiMsg2 (idx0 + 1) pkiMsg2Sz) ASN_PARSE_E)
                     (\<lambda>(idx, len). Inr (idx + len))
                 else Inr idx0) (\<lambda>idx.
          bindE (orE (GetSet x pkiMsg2 idx pkiMsg2Sz) ASN_PARSE_E) (\<lambda>(idx, len).
          if len = 0 \<and> noDegenerate p2 then Inl PKCS7_NO_SIGNER_E
          else if \<not> degenerate \<and> len = 0 then Inl PKCS7_NO_SIGNER_E
          else Inr (p2, idx, len)))))"

text \<open>
  The signer identifier of a SignerInfo of version 3 (lines 2618-2635): the index after
  it. The error code that the four steps keep in \<open>ret\<close> is not looked at afterwards,
  and the index is advanced by the last length that was read: \<open>len0\<close> is the length
  left by the header of the SignerInfo. A length reader that fails leaves the index
  and sets the length to 0, as the one of asn.c does.
\<close>

definition skip_subjectKeyId :: "ext \<Rightarrow> byte list \<Rightarrow> nat \<Rightarrow> nat \<Rightarrow> nat \<Rightarrow> error + nat" where
  "skip_subjectKeyId x pkiMsg pkiMsgSz idx0 len0 =
     bindE (read_byte pkiMsg idx0) (\<lambda>b.
     if b \<noteq> (ASN_CONSTRUCTED OR ASN_CONTEXT_SPECIFIC OR 0) then Inr (idx0 + 1 + len0)
     else
       (case GetLength x pkiMsg (idx0 + 1) pkiMsgSz of
          None \<Rightarrow> Inr (idx0 + 1)
        | Some (idx1, len1) \<Rightarrow>
            if len1 = 0 then Inr idx1
            else
              bindE (read_byte pkiMsg idx1) (\<lambda>b.
              if b \<noteq> ASN_OCTET_STRING then Inr (idx1 + 1 + len1)
              else
                (case GetLength x pkiMsg (idx1 + 1) pkiMsgSz of
                   None \<Rightarrow> Inr (idx1 + 1)
                 | Some (idx2, len2) \<Rightarrow> Inr (idx2 + len2)))))"

text \<open>
  The first SignerInfo up to the signature (lines 2602-2707): the session, the signed
  attributes as pointer and size, and the signature.
\<close>

definition VerifySignedData_signer ::
  "ext \<Rightarrow> PKCS7 \<Rightarrow> byte list \<Rightarrow> nat \<Rightarrow> content_found \<Rightarrow> nat
     \<Rightarrow> error + (PKCS7 \<times> byte list option \<times> nat \<times> byte list option)" where
  "VerifySignedData_signer x pkcs7 pkiMsg pkiMsgSz cf idx0 =
     (let pkiMsg2 = cf_pkiMsg2 cf; pkiMsg2Sz = cf_pkiMsg2Sz cf in
      bindE (orE (GetSequence x pkiMsg2 idx0 pkiMsg2Sz) ASN_PARSE_E) (\<lambda>(idx, len0).
      bindE (orE (GetMyVersion x pkiMsg2 idx pkiMsg2Sz) ASN_PARSE_E) (\<lambda>(idx, version).
      bindE (if version = 1 then
               bindE (orE (GetSequence x pkiMsg idx pkiMsgSz) ASN_PARSE_E) (\<lambda>(idx, len).
               Inr (idx + len))
             else if version = 3 then skip_subjectKeyId x pkiMsg pkiMsgSz idx len0
             else Inl ASN_VERSION_E) (\<lambda>idx.
      bindE (orE (GetAlgoId x pkiMsg2 idx oidHashType pkiMsg2Sz) ASN_PARSE_E)
        (\<lambda>(idx, hashOID').
      bindE (orE (GetSequence x pkiMsg2 idx pkiMsg2Sz) ASN_PARSE_E) (\<lambda>(idx, len).
      bindE (orE (GetAlgoId x pkiMsg2 (idx + len) oidHashType pkiMsg2Sz) ASN_PARSE_E)
        (\<lambda>(idx, hashOID').
      let p1 = pkcs7\<lparr>hashOID := hashOID'\<rparr> in
      bindE (read_byte pkiMsg2 idx) (\<lambda>b.
      bindE (if b = (ASN_CONSTRUCTED OR ASN_CONTEXT_SPECIFIC OR 0) then
               bindE (orE (GetLength x pkiMsg2 (idx + 1) pkiMsg2Sz) ASN_PARSE_E)
                 (\<lambda>(idx, len).
               case wc_PKCS7_ParseAttribs x p1 (drop idx pkiMsg2) len of
                 Inl e \<Rightarrow> if e = MEM_FAULT \<or> e = LOOPS then Inl e else Inl ASN_PARSE_E
               | Inr (found, p2) \<Rightarrow> Inr (p2, Some (drop idx pkiMsg2), len, idx + len))
             else Inr (p1, None, 0, idx)) (\<lambda>(p2, signedAttrib, signedAttribSz, idx).
      bindE (orE (GetAlgoId x pkiMsg2 idx oidSigType pkiMsg2Sz) ASN_PARSE_E)
        (\<lambda>(idx, sigOID).
      bindE (wc_PKCS7_SetPublicKeyOID p2 sigOID) (\<lambda>(keyOID, p3).
      bindE (read_byte pkiMsg2 idx) (\<lambda>b.
      bindE (if b = ASN_OCTET_STRING then
               bindE (orE (GetLength x pkiMsg2 (idx + 1) pkiMsg2Sz) ASN_PARSE_E)
                 (\<lambda>(idx, len).
               bindE (read_bytes pkiMsg2 idx len) (\<lambda>s. Inr (Some s)))
             else Inr None) (\<lambda>sig.
      Inr (p3\<lparr>content := cf_content cf, contentSz := cf_contentSz cf\<rparr>,
           signedAttrib, signedAttribSz, sig))))))))))))))"

text \<open>The stages in sequence; the result is the session after a return of 0.\<close>

definition PKCS7_VerifySignedData ::
  "ext \<Rightarrow> PKCS7 \<Rightarrow> byte list option \<Rightarrow> nat \<Rightarrow> byte list option \<Rightarrow> nat \<Rightarrow> byte list option
     \<Rightarrow> nat \<Rightarrow> error + PKCS7" where
  "PKCS7_VerifySignedData x pkcs7 hashBuf hashSz pkiMsg' pkiMsgSz' pkiMsg2 pkiMsg2Sz =
     bindE (VerifySignedData_header x pkcs7 pkiMsg' pkiMsgSz' pkiMsg2 pkiMsg2Sz)
       (\<lambda>(pkiMsg, pkiMsgSz, totalSz, idx, degenerate).
     bindE (VerifySignedData_content x pkcs7 hashBuf hashSz pkiMsg pkiMsgSz pkiMsg2
              pkiMsg2Sz totalSz idx degenerate) (\<lambda>(p1, contentType', contentTypeSz, cf).
     bindE (VerifySignedData_certs x p1 (cf_pkiMsg2 cf) (cf_pkiMsg2Sz cf) (cf_idx cf))
       (\<lambda>(p2, idx).
     bindE (VerifySignedData_signerSet x p2 contentType' contentTypeSz cf idx degenerate)
       (\<lambda>(p3, idx, len).
     if len > 0 \<and> \<not> degenerate then
       bindE (VerifySignedData_signer x p3 pkiMsg pkiMsgSz cf idx)
         (\<lambda>(p4, signedAttrib, signedAttribSz, sig).
       bindE (wc_PKCS7_SignedDataVerifySignature x p4 sig signedAttrib signedAttribSz
                hashBuf hashSz) (\<lambda>n. Inr p4))
     else Inr p3))))"

text \<open>
  \<open>wc_PKCS7_VerifySignedData_ex\<close> and \<open>wc_PKCS7_VerifySignedData\<close> (pkcs7.c
  2720-2733).
\<close>

definition wc_PKCS7_VerifySignedData_ex ::
  "ext \<Rightarrow> PKCS7 \<Rightarrow> byte list option \<Rightarrow> nat \<Rightarrow> byte list option \<Rightarrow> nat \<Rightarrow> byte list option
     \<Rightarrow> nat \<Rightarrow> error + PKCS7" where
  "wc_PKCS7_VerifySignedData_ex x pkcs7 hashBuf hashSz pkiMsgHead pkiMsgHeadSz pkiMsgFoot
       pkiMsgFootSz =
     PKCS7_VerifySignedData x pkcs7 hashBuf hashSz pkiMsgHead pkiMsgHeadSz pkiMsgFoot
       pkiMsgFootSz"

definition wc_PKCS7_VerifySignedData ::
  "ext \<Rightarrow> PKCS7 \<Rightarrow> byte list option \<Rightarrow> nat \<Rightarrow> error + PKCS7" where
  "wc_PKCS7_VerifySignedData x pkcs7 pkiMsg pkiMsgSz =
     PKCS7_VerifySignedData x pkcs7 None 0 pkiMsg pkiMsgSz None 0"

section \<open>A sample of the layers below, for concrete runs\<close>

text \<open>
  The theorems hold for every record \<open>ext\<close>. To run the model on concrete messages
  the record \<open>sample_ext\<close> fills the fields: the ASN.1 functions read and write DER
  (tag, length, value; the spec, section 6, names X.690), the object identifier of an
  encoding is the sum of its octets, and the cryptographic primitives are small
  stand-ins (a keyed XOR for each cipher, a byte sum for the hash, the key appended for
  a signature). Nothing is proved about these stand-ins; they only make runs computable.
\<close>

definition der_length_octets :: "nat \<Rightarrow> byte list" where
  "der_length_octets n =
     (if n < 128 then [of_nat n]
      else if n < 256 then [0x81, of_nat n]
      else if n < 65536 then [0x82, of_nat (n div 256), of_nat (n mod 256)]
      else [0x83, of_nat (n div 65536), of_nat ((n div 256) mod 256), of_nat (n mod 256)])"

fun be_value :: "byte list \<Rightarrow> nat" where
  "be_value [] = 0"
| "be_value (b # bs) = unat b * 256 ^ length bs + be_value bs"

definition der_GetLength :: "byte list \<Rightarrow> nat \<Rightarrow> nat \<Rightarrow> (nat \<times> nat) option" where
  "der_GetLength input idx maxIdx =
     (if idx + 1 > maxIdx \<or> idx \<ge> length input then None
      else
        let b = input ! idx in
        if b \<ge> 0x80 then
          (let n = unat (b AND 0x7F) in
           if idx + 1 + n > maxIdx \<or> idx + 1 + n > length input then None
           else
             let len = be_value (take n (drop (idx + 1) input)) in
             if idx + 1 + n + len > maxIdx then None else Some (idx + 1 + n, len))
        else
          if idx + 1 + unat b > maxIdx then None else Some (idx + 1, unat b))"

definition der_GetHeader :: "byte \<Rightarrow> byte list \<Rightarrow> nat \<Rightarrow> nat \<Rightarrow> (nat \<times> nat) option" where
  "der_GetHeader tag input idx maxIdx =
     (if idx + 1 > maxIdx \<or> idx \<ge> length input then None
      else if input ! idx \<noteq> tag then None
      else der_GetLength input (idx + 1) maxIdx)"

definition der_GetMyVersion :: "byte list \<Rightarrow> nat \<Rightarrow> nat \<Rightarrow> (nat \<times> int) option" where
  "der_GetMyVersion input idx maxIdx =
     (if idx + 3 > maxIdx \<or> idx + 3 > length input then None
      else if input ! idx \<noteq> 0x02 then None
      else if input ! (idx + 1) \<noteq> 0x01 then None
      else Some (idx + 3, uint (input ! (idx + 2))))"

definition der_GetObjectId :: "byte list \<Rightarrow> nat \<Rightarrow> oid_type \<Rightarrow> nat \<Rightarrow> (nat \<times> nat) option" where
  "der_GetObjectId input idx t maxIdx =
     (case der_GetHeader 0x06 input idx maxIdx of
        None \<Rightarrow> None
      | Some (i, len) \<Rightarrow>
          if i + len > length input then None
          else Some (i + len, sum_list (map unat (take len (drop i input)))))"

definition der_GetAlgoId :: "byte list \<Rightarrow> nat \<Rightarrow> oid_type \<Rightarrow> nat \<Rightarrow> (nat \<times> nat) option" where
  "der_GetAlgoId input idx t maxIdx =
     (case der_GetHeader 0x30 input idx maxIdx of
        None \<Rightarrow> None
      | Some (i, len) \<Rightarrow>
          (case der_GetObjectId input i t maxIdx of
             None \<Rightarrow> None
           | Some (j, oidsum) \<Rightarrow>
               if j < maxIdx \<and> j < length input \<and> input ! j = 0x05 then
                 (if j + 2 \<le> maxIdx \<and> j + 2 \<le> length input \<and> input ! (j + 1) = 0x00
                  then Some (j + 2, oidsum) else None)
               else Some (j, oidsum)))"

text \<open>The stand-in for the hash of a name: the first 20 octets of the name, zero padded.\<close>

definition der_GetNameHash :: "byte list \<Rightarrow> nat \<Rightarrow> nat \<Rightarrow> (nat \<times> byte list) option" where
  "der_GetNameHash input idx maxIdx =
     (case der_GetHeader 0x30 input idx maxIdx of
        None \<Rightarrow> None
      | Some (i, len) \<Rightarrow>
          if i + len > length input then None
          else Some (i + len, take 20 (take len (drop i input) @ replicate 20 0)))"

definition der_GetInt :: "byte list \<Rightarrow> nat \<Rightarrow> nat \<Rightarrow> nat option" where
  "der_GetInt input idx maxIdx =
     (case der_GetHeader 0x02 input idx maxIdx of
        None \<Rightarrow> None
      | Some (i, len) \<Rightarrow> Some (i + len))"

text \<open>The encodings of the identifiers that the sample knows, by their sums.\<close>

definition sample_oid_octets :: "nat \<Rightarrow> oid_type \<Rightarrow> byte list" where
  "sample_oid_octets n t =
     (if t = oidHashType \<and> n = SHA256h
        then [0x60, 0x86, 0x48, 0x01, 0x65, 0x03, 0x04, 0x02, 0x01]
      else if t = oidBlkType \<and> n = AES128CBCb
        then [0x60, 0x86, 0x48, 0x01, 0x65, 0x03, 0x04, 0x01, 0x02]
      else if t = oidKeyType \<and> n = RSAk
        then [0x2A, 0x86, 0x48, 0x86, 0xF7, 0x0D, 0x01, 0x01, 0x01]
      else if t = oidSigType \<and> n = CTC_SHA256wRSA
        then [0x2A, 0x86, 0x48, 0x86, 0xF7, 0x0D, 0x01, 0x01, 0x0B]
      else if t = oidSigType \<and> n = CTC_SHA256wECDSA
        then [0x2A, 0x86, 0x48, 0xCE, 0x3D, 0x04, 0x03, 0x02]
      else [])"

definition der_SetAlgoID :: "nat \<Rightarrow> oid_type \<Rightarrow> nat \<Rightarrow> byte list" where
  "der_SetAlgoID n t curveSz =
     (let name = sample_oid_octets n t;
          tagSz = (if t = oidHashType \<or> (t = oidSigType \<and> n \<noteq> CTC_SHA256wECDSA) \<or>
                      (t = oidKeyType \<and> n = RSAk) then 2 else 0 :: nat)
      in if name = [] then []
         else 0x30 # der_length_octets (1 + 1 + length name + tagSz + curveSz) @
              0x06 # der_length_octets (length name) @ name @
              (if tagSz = 2 then [0x05, 0x00] else []))"

definition xor_bytes :: "byte list \<Rightarrow> byte list \<Rightarrow> byte list" where
  "xor_bytes k d = map (\<lambda>b. b XOR (if k = [] then 0 else hd k)) d"

definition sample_hash :: "nat \<Rightarrow> byte list \<Rightarrow> error + byte list" where
  "sample_hash t d = Inr (replicate 32 (of_nat (sum_list (map unat d))))"

definition sample_ParseCert :: "byte list \<Rightarrow> error + DecodedCert" where
  "sample_ParseCert c =
     (if length c < 4 \<or> hd c \<noteq> 0x30 then Inl ASN_PARSE_E
      else Inr \<lparr>dc_publicKey = drop 3 c, dc_keyOID = (if c ! 2 = 1 then RSAk else ECDSAk),
                dc_issuerHash = replicate 20 (c ! 3), dc_issuerRaw = [0x31, 0x00],
                dc_serial = [c ! 3], dc_extSubjKeyId = replicate 20 (c ! 3)\<rparr>)"

text \<open>
  The numbers of the error codes in error-crypt.h. \<open>MEM_FAULT\<close> and \<open>LOOPS\<close> are
  no return codes.
\<close>

definition sample_error_code :: "error \<Rightarrow> int" where
  "sample_error_code e =
     (case e of
        MEMORY_E \<Rightarrow> - 125 | BUFFER_E \<Rightarrow> - 132 | ALGO_ID_E \<Rightarrow> - 133
      | ASN_PARSE_E \<Rightarrow> - 140 | ASN_VERSION_E \<Rightarrow> - 141 | ASN_SIG_KEY_E \<Rightarrow> - 157
      | BAD_FUNC_ARG \<Rightarrow> - 173 | NOT_COMPILED_IN \<Rightarrow> - 174 | PKCS7_OID_E \<Rightarrow> - 195
      | PKCS7_RECIP_E \<Rightarrow> - 196 | SKID_E \<Rightarrow> - 224 | SIG_VERIFY_E \<Rightarrow> - 229
      | BAD_KEYWRAP_ALG_E \<Rightarrow> - 239 | BER_INDEF_E \<Rightarrow> - 252
      | PKCS7_NO_SIGNER_E \<Rightarrow> - 269 | PRIM_E c \<Rightarrow> c | MEM_FAULT \<Rightarrow> 0 | LOOPS \<Rightarrow> 0)"

definition sample_ext :: ext where
  "sample_ext = \<lparr>
     GetLength = der_GetLength,
     GetSequence = der_GetHeader 0x30,
     GetSet = der_GetHeader 0x31,
     GetMyVersion = der_GetMyVersion,
     GetObjectId = der_GetObjectId,
     GetASNObjectId = der_GetHeader 0x06,
     GetAlgoId = der_GetAlgoId,
     GetNameHash = der_GetNameHash,
     GetInt = der_GetInt,
     wc_BerToDer = (\<lambda>m. Inl BER_INDEF_E),
     SetLength = der_length_octets,
     SetSequence = (\<lambda>n. 0x30 # der_length_octets n),
     SetSet = (\<lambda>n. 0x31 # der_length_octets n),
     SetOctetString = (\<lambda>n. 0x04 # der_length_octets n),
     SetImplicit = (\<lambda>tag number n.
        ((if tag = ASN_SEQUENCE \<or> tag = ASN_SET then ASN_CONSTRUCTED else 0)
           OR ASN_CONTEXT_SPECIFIC OR of_nat number) # der_length_octets n),
     SetExplicit = (\<lambda>number n.
        (ASN_CONSTRUCTED OR ASN_CONTEXT_SPECIFIC OR of_nat number) # der_length_octets n),
     SetMyVersion = (\<lambda>v header.
        (if header then [0xA0, 0x03] else []) @ [0x02, 0x01, of_nat v]),
     SetAlgoID = der_SetAlgoID,
     SetSerialNumber = (\<lambda>sn maxSz. 0x02 # der_length_octets (length sn) @ sn),
     GetAsnTimeString = Some [0x17, 0x01, 0x5A],
     ParseCert = sample_ParseCert,
     wc_OidGetHash = (\<lambda>n. n),
     wc_HashGetDigestSize = (\<lambda>t. if t = SHA256h then Inr 32 else Inl BAD_FUNC_ARG),
     wc_Hash = sample_hash,
     wc_InitRsaKey_ex = (\<lambda>d. None),
     wc_RsaPrivateKeyDecode = (\<lambda>k. Inr k),
     wc_RsaPublicKeyDecode = (\<lambda>k. Inr k),
     wc_RsaSSL_Sign = (\<lambda>d k. Inr (d @ k)),
     wc_RsaSSL_Verify = (\<lambda>s k.
        if length k \<le> length s \<and> drop (length s - length k) s = k
        then Inr (take (length s - length k) s) else Inl (PRIM_E (- 1))),
     wc_RsaPrivateDecryptInline = (\<lambda>c k.
        if c \<noteq> [] \<and> hd c = 0x02 then Inr (xor_bytes k (tl c)) else Inl (PRIM_E (- 1))),
     wc_ecc_init_ex = (\<lambda>d. None),
     wc_EccPrivateKeyDecode = (\<lambda>k. Inr k),
     wc_EccPublicKeyDecode = (\<lambda>k idx.
        if idx = 0 then (Inr k, length k) else (Inl ASN_PARSE_E, idx)),
     wc_ecc_sign_hash = (\<lambda>d k. Inr (d @ k)),
     wc_ecc_verify_hash = (\<lambda>s h k. Inr (s = h @ k)),
     wc_AesCbcEncrypt = (\<lambda>k iv d. Inr (xor_bytes k d)),
     wc_AesCbcDecrypt = (\<lambda>k iv d. Inr (xor_bytes k d)),
     wc_Des_CbcEncrypt = (\<lambda>k iv d. Inr (xor_bytes k d)),
     wc_Des_CbcDecrypt = (\<lambda>k iv d. Inr (xor_bytes k d)),
     wc_Des3_CbcEncrypt = (\<lambda>k iv d. Inr (xor_bytes k d)),
     wc_Des3_CbcDecrypt = (\<lambda>k iv d. Inr (xor_bytes k d)),
     wc_RNG_GenerateBlock = (\<lambda>n. Inr (replicate n 0x11)),
     error_code = sample_error_code \<rparr>"

section \<open>Sample sessions and messages\<close>

text \<open>A DER element: tag, length, content.\<close>

definition der_tlv :: "byte \<Rightarrow> byte list \<Rightarrow> byte list" where
  "der_tlv tag c = tag # der_length_octets (length c) @ c"

text \<open>
  An EncryptedData session: three bytes of content, AES-128-CBC, a key of 16 bytes; and
  the same session with one unprotected attribute.
\<close>

definition enc_session :: PKCS7 where
  "enc_session = PKCS7_zero\<lparr>content := Some [0x48, 0x69, 0x21], contentSz := 3,
     contentOID := DATA, encryptOID := AES128CBCb,
     encryptionKey := Some (replicate 16 0x5A)\<rparr>"


text \<open>
  An EncryptedData message with the given version and cipher text, and the unprotected
  attributes \<open>attrs\<close> (the encoded \<open>[1]\<close> element, or nothing).
\<close>

definition encrypted_msg :: "byte \<Rightarrow> byte list \<Rightarrow> byte list \<Rightarrow> byte list" where
  "encrypted_msg version cipher attrs =
     der_tlv 0x30
       (der_tlv 0x06 [0x2A, 0x86, 0x48, 0x86, 0xF7, 0x0D, 0x01, 0x07, 0x06] @
        der_tlv 0xA0
          (der_tlv 0x30
             ([0x02, 0x01, version] @
              der_tlv 0x30
                (der_tlv 0x06 [0x2A, 0x86, 0x48, 0x86, 0xF7, 0x0D, 0x01, 0x07, 0x01] @
                 der_tlv 0x30
                   (der_tlv 0x06 [0x60, 0x86, 0x48, 0x01, 0x65, 0x03, 0x04, 0x01, 0x02] @
                    der_tlv 0x04 (replicate 16 0x11)) @
                 der_tlv 0x80 cipher) @
              attrs)))"

text \<open>
  Cipher texts for the sample key: of the padded content \<open>Hi!\<close>, and of a block that
  ends in the byte \<open>0xFF\<close>.
\<close>

definition plain_hi :: "byte list" where
  "plain_hi = [0x48, 0x69, 0x21] @ replicate 13 13"

definition plain_ff :: "byte list" where
  "plain_ff = replicate 15 0x41 @ [0xFF]"

definition cipher_hi :: "byte list" where
  "cipher_hi = xor_bytes [0x5A] plain_hi"

definition cipher_ff :: "byte list" where
  "cipher_ff = xor_bytes [0x5A] plain_ff"


text \<open>
  An EnvelopedData session: a recipient certificate whose issuer hash is twenty bytes
  \<open>0x07\<close>, an RSA key pair. The stand-in for RSA decryption accepts a block that starts
  with \<open>0x02\<close>.
\<close>

definition env_session :: PKCS7 where
  "env_session = PKCS7_zero\<lparr>singleCert := Some [0x30, 0x02, 0x01, 0x07],
     publicKeyOID := RSAk, issuerHash := replicate 20 0x07,
     privateKey := Some [0x77], devId := INVALID_DEVID\<rparr>"

text \<open>
  A KeyTransRecipientInfo for the issuer \<open>name\<close> with the encrypted key
  \<open>encKey\<close>.
\<close>

definition ktri :: "byte list \<Rightarrow> byte list \<Rightarrow> byte list" where
  "ktri name encKey =
     der_tlv 0x30
       ([0x02, 0x01, 0x00] @
        der_tlv 0x30 (der_tlv 0x30 name @ der_tlv 0x02 [0x01]) @
        der_tlv 0x30 (der_tlv 0x06 [0x2A, 0x86, 0x48, 0x86, 0xF7, 0x0D, 0x01, 0x01, 0x01] @
                      [0x05, 0x00]) @
        der_tlv 0x04 encKey)"

text \<open>An EnvelopedData message with the given RecipientInfos and cipher text.\<close>

definition enveloped_msg :: "byte list \<Rightarrow> byte list \<Rightarrow> byte list" where
  "enveloped_msg recips cipher =
     der_tlv 0x30
       (der_tlv 0x06 [0x2A, 0x86, 0x48, 0x86, 0xF7, 0x0D, 0x01, 0x07, 0x03] @
        der_tlv 0xA0
          (der_tlv 0x30
             ([0x02, 0x01, 0x00] @
              der_tlv 0x31 recips @
              der_tlv 0x30
                (der_tlv 0x06 [0x2A, 0x86, 0x48, 0x86, 0xF7, 0x0D, 0x01, 0x07, 0x01] @
                 der_tlv 0x30
                   (der_tlv 0x06 [0x60, 0x86, 0x48, 0x01, 0x65, 0x03, 0x04, 0x01, 0x02] @
                    der_tlv 0x04 (replicate 16 0x11)) @
                 der_tlv 0x80 cipher))))"

text \<open>
  The recipient of the session (its encrypted key is the content key under the sample
  RSA stand-in) and a recipient of another certificate.
\<close>

definition ktri_ours :: "byte list" where
  "ktri_ours = ktri (replicate 20 0x07) (0x02 # xor_bytes [0x77] (replicate 16 0x5A))"

definition ktri_other :: "byte list" where
  "ktri_other = ktri (replicate 20 0x09) (0x02 # xor_bytes [0x55] (replicate 16 0x5A))"

text \<open>A key agreement branch that is never reached in the sample runs.\<close>

definition no_kari :: kari_fun where
  "no_kari pkcs7 pkiMsg pkiMsgSz idx decryptedKey recipFound = Inl NOT_COMPILED_IN"

section \<open>Sample SignedData sessions\<close>

text \<open>
  A signing session: a content of three bytes of which only the size is set, SHA-256,
  an RSA key, one certificate, the signer named by issuer and serial number; and the
  same session with one signed attribute of the caller.
\<close>

definition sign_session :: PKCS7 where
  "sign_session = PKCS7_zero\<lparr>contentSz := 3, rng := True, hashOID := SHA256h,
     encryptOID := RSAk, publicKeyOID := RSAk, privateKey := Some [0x77],
     devId := INVALID_DEVID, sidType := SID_ISSUER_AND_SERIAL_NUMBER,
     issuer := [0x31, 0x00], issuerSn := [0x07],
     certList := [[0x30, 0x02, 0x01, 0x77]]\<rparr>"

definition sign_session_attr :: PKCS7 where
  "sign_session_attr = sign_session\<lparr>
     signedAttribs := Some [\<lparr>oid = [0x06, 0x03, 0x55, 0x04, 0x03],
                             val = [0x13, 0x01, 0x33]\<rparr>],
     signedAttribsSz := 1\<rparr>"

text \<open>A digest of 32 bytes computed by the caller, and \<open>esd->contentDigest\<close> for it.\<close>

definition digest_ab :: "byte list" where
  "digest_ab = replicate 32 0xAB"



definition data_oid :: "byte list" where
  "data_oid = der_tlv 0x06 [0x2A, 0x86, 0x48, 0x86, 0xF7, 0x0D, 0x01, 0x07, 0x01]"

definition sha256_algid :: "byte list" where
  "sha256_algid =
     der_tlv 0x30 (der_tlv 0x06 [0x60, 0x86, 0x48, 0x01, 0x65, 0x03, 0x04, 0x02, 0x01] @
                   [0x05, 0x00])"

definition sha256_rsa_algid :: "byte list" where
  "sha256_rsa_algid =
     der_tlv 0x30 (der_tlv 0x06 [0x2A, 0x86, 0x48, 0x86, 0xF7, 0x0D, 0x01, 0x01, 0x0B] @
                   [0x05, 0x00])"

text \<open>
  The header of a DigestInfo for SHA-256: the sequence of 49 bytes, the algorithm
  identifier, and the header of the octet string of 32 bytes.
\<close>

definition sha256_prefix :: "byte list" where
  "sha256_prefix = [0x30, 0x31] @ sha256_algid @ [0x04, 0x20]"





definition sign_parts :: signer_parts where
  "sign_parts = \<lparr>sp_signerVersion = [0x02, 0x01, 0x01],
     sp_signerId = der_tlv 0x30 (der_tlv 0x30 [0x31, 0x00] @ [0x02, 0x01, 0x07]),
     sp_signerDigAlgoId = sha256_algid, sp_digEncAlgoId = sha256_rsa_algid,
     sp_signedAttribSet = [], sp_flatSignedAttribs = [],
     sp_encContentDigest = sha256_prefix @ digest_ab @ [0x77],
     sp_contentAttribsDigest = zeroed_with WC_MAX_DIGEST_SIZE digest_ab\<rparr>"

text \<open>
  The same for the session with a signed attribute: an attribute on the wire, the four
  attributes flattened (content type, message digest, signing time and the one of the
  caller), and the parts of the SignerInfo. With the stand-in for the hash the digest
  of the attributes under their SET header is 32 bytes \<open>0xCB\<close>.
\<close>

definition attr_tlv :: "byte list \<Rightarrow> byte list \<Rightarrow> byte list" where
  "attr_tlv oid' val' = der_tlv 0x30 (oid' @ der_tlv 0x31 val')"

definition sample_flat :: "byte list" where
  "sample_flat =
     attr_tlv contentTypeOid data_oid @
     attr_tlv messageDigestOid (0x04 # 0x20 # digest_ab) @
     attr_tlv signingTimeOid [0x17, 0x01, 0x5A] @
     attr_tlv [0x06, 0x03, 0x55, 0x04, 0x03] [0x13, 0x01, 0x33]"

definition digest_cb :: "byte list" where
  "digest_cb = replicate 32 0xCB"

definition sign_session_attr_data :: PKCS7 where
  "sign_session_attr_data = sign_session_attr\<lparr>contentOID := DATA, contentType := data_oid\<rparr>"

definition sign_parts_attr :: signer_parts where
  "sign_parts_attr = sign_parts\<lparr>sp_signedAttribSet := [0xA0, 0x69],
     sp_flatSignedAttribs := sample_flat,
     sp_encContentDigest := sha256_prefix @ digest_cb @ [0x77],
     sp_contentAttribsDigest := zeroed_with WC_MAX_DIGEST_SIZE digest_cb\<rparr>"

text \<open>
  A SignerInfo as the decoder reads it (pkcs7.c 2602-2704): version, signer identifier,
  digest algorithm, a sequence that is skipped, the digest algorithm again, the signed
  attributes under \<open>[0]\<close>, the signature algorithm and the signature; and what the
  decoder knows when it gets there, for a buffer that holds only the SignerInfo.
\<close>

definition signer_info_msg :: "byte list \<Rightarrow> byte list \<Rightarrow> byte list" where
  "signer_info_msg attrs sig =
     der_tlv 0x30
       ([0x02, 0x01, 0x01] @
        der_tlv 0x30 (der_tlv 0x30 [0x31, 0x00] @ [0x02, 0x01, 0x07]) @
        sha256_algid @ der_tlv 0x30 [] @ sha256_algid @
        der_tlv 0xA0 attrs @ sha256_rsa_algid @ der_tlv 0x04 sig)"

definition found_in :: "byte list \<Rightarrow> content_found" where
  "found_in m = \<lparr>cf_idx = 0, cf_pkiMsg2 = m, cf_pkiMsg2Sz = length m, cf_content = None,
                 cf_contentSz = 0\<rparr>"


section \<open>Properties: results\<close>

lemma bindE_simps [simp]: "bindE (Inl e) f = Inl e" "bindE (Inr v) f = f v"
  by (simp_all add: bindE_def)

lemma bindE_Inr_iff: "bindE m f = Inr r \<longleftrightarrow> (\<exists>v. m = Inr v \<and> f v = Inr r)"
  by (cases m) (simp_all add: bindE_def)

section \<open>Properties of the padding\<close>

lemma pad_loop_fills:
  "unat inSz + i + n \<le> length out \<Longrightarrow> unat inSz + i + n < 2 ^ 32 \<Longrightarrow>
   pad_loop n i inSz b out =
     Some (take (unat inSz + i) out @ replicate n b @ drop (unat inSz + i + n) out)"
proof (induction n arbitrary: i out)
  case 0
  then show ?case by simp
next
  case (Suc n)
  have k: "unat (inSz + of_nat i) = unat inSz + i"
    using Suc.prems(2) by (simp add: unat_word_ariths unat_of_nat)
  have len: "unat inSz + i < length out"
    using Suc.prems(1) by simp
  have step: "pad_loop n (Suc i) inSz b (out[unat inSz + i := b]) =
      Some (take (unat inSz + Suc i) (out[unat inSz + i := b]) @ replicate n b @
            drop (unat inSz + Suc i + n) (out[unat inSz + i := b]))"
    using Suc.prems by (intro Suc.IH) simp_all
  have t: "take (unat inSz + Suc i) (out[unat inSz + i := b]) = take (unat inSz + i) out @ [b]"
    using len by (simp add: take_Suc_conv_app_nth)
  have d: "drop (unat inSz + Suc i + n) (out[unat inSz + i := b]) = drop (unat inSz + i + Suc n) out"
    by simp
  have "pad_loop (Suc n) i inSz b out = pad_loop n (Suc i) inSz b (out[unat inSz + i := b])"
    using len by (simp add: k)
  also have "\<dots> = Some ((take (unat inSz + i) out @ [b]) @ replicate n b @
            drop (unat inSz + i + Suc n) out)"
    unfolding step t d ..
  also have "\<dots> = Some (take (unat inSz + i) out @ replicate (Suc n) b @
            drop (unat inSz + i + Suc n) out)"
    by simp
  finally show ?case .
qed


text \<open>
  For a non-zero block size the pad size is the distance to the next block boundary,
  between 1 and the block size.
\<close>

lemma padsz_facts:
  assumes b0: "blockSz \<noteq> 0"
  shows "unat (wc_PKCS7_GetPadSize inSz blockSz) = unat blockSz - unat inSz mod unat blockSz"
    and "1 \<le> unat (wc_PKCS7_GetPadSize inSz blockSz)"
    and "unat (wc_PKCS7_GetPadSize inSz blockSz) \<le> unat blockSz"
proof -
  have lt: "inSz mod blockSz < blockSz"
    using b0 by (simp add: word_mod_less_divisor word_neq_0_conv[symmetric] word_greater_zero_iff)
  have le: "inSz mod blockSz \<le> blockSz" using lt by simp
  have u: "unat (blockSz - inSz mod blockSz) = unat blockSz - unat (inSz mod blockSz)"
    using le by (simp add: unat_sub)
  have ult: "unat (inSz mod blockSz) < unat blockSz" using lt by (simp add: word_less_nat_alt)
  show "unat (wc_PKCS7_GetPadSize inSz blockSz) = unat blockSz - unat inSz mod unat blockSz"
    using b0 u by (simp add: wc_PKCS7_GetPadSize_def unat_mod)
  show "1 \<le> unat (wc_PKCS7_GetPadSize inSz blockSz)"
    using b0 u ult by (simp add: wc_PKCS7_GetPadSize_def)
  show "unat (wc_PKCS7_GetPadSize inSz blockSz) \<le> unat blockSz"
    using b0 u by (simp add: wc_PKCS7_GetPadSize_def)
qed

lemma sint_small: "unat (w :: 32 word) < 2 ^ 31 \<Longrightarrow> sint w = int (unat w)"
proof -
  assume a: "unat w < 2 ^ 31"
  have "int (unat w) < int (2 ^ 31)" using a by (rule iffD2[OF of_nat_less_iff])
  then have u: "uint w < 2 ^ 31" by simp
  have "signed_take_bit 31 (uint w) = uint w"
    by (rule signed_take_bit_int_eq_self) (use u in \<open>simp_all add: order_trans[of _ 0]\<close>)
  then show ?thesis by (simp add: sint_uint)
qed

text \<open>
  On buffers that are large enough and sizes that do not wrap around,
  \<open>wc_PKCS7_PadData\<close> returns the input followed by \<open>padSz\<close> copies of
  \<open>(byte)padSz\<close>.
\<close>

lemma PadData_ok:
  assumes i0: "inSz \<noteq> 0" and b0: "blockSz \<noteq> 0"
    and small: "unat inSz + unat blockSz < 2 ^ 31"
    and inlen: "unat inSz \<le> length ib"
    and fits: "unat inSz + unat (wc_PKCS7_GetPadSize inSz blockSz) \<le> unat outSz"
    and outlen: "unat outSz \<le> length ob"
  shows "wc_PKCS7_PadData (Some ib) inSz (Some ob) outSz blockSz =
     Some (inSz + wc_PKCS7_GetPadSize inSz blockSz,
           Some (take (unat inSz) ib @
                 replicate (unat (wc_PKCS7_GetPadSize inSz blockSz))
                           (ucast (wc_PKCS7_GetPadSize inSz blockSz)) @
                 drop (unat inSz + unat (wc_PKCS7_GetPadSize inSz blockSz)) ob))"
proof -
  define p where "p = wc_PKCS7_GetPadSize inSz blockSz"
  have ple: "unat p \<le> unat blockSz" and p1: "1 \<le> unat p"
    using padsz_facts[OF b0, of inSz] by (simp_all add: p_def)
  have psmall: "unat p < 2 ^ 31" using ple small by linarith
  have sp: "nat (sint p) = unat p" using sint_small[OF psmall] by simp
  have sum: "unat (inSz + p) = unat inSz + unat p"
    using ple small by (simp add: unat_word_ariths)
  have o0: "outSz \<noteq> 0" using fits p1 by (auto simp: p_def)
  have nlt: "\<not> outSz < inSz + p"
    using fits sum by (simp add: word_less_nat_alt p_def)
  have cp: "xmemcpy ob 0 ib (unat inSz) = Some (take (unat inSz) ib @ drop (unat inSz) ob)"
    using inlen fits outlen by (simp add: xmemcpy_def)
  let ?o1 = "take (unat inSz) ib @ drop (unat inSz) ob"
  have l1: "length ?o1 = length ob" using inlen fits outlen by simp
  have lp: "pad_loop (unat p) 0 inSz (ucast p) ?o1 =
      Some (take (unat inSz + 0) ?o1 @ replicate (unat p) (ucast p) @ drop (unat inSz + 0 + unat p) ?o1)"
    using fits outlen small ple l1 by (intro pad_loop_fills) (simp_all add: p_def)
  have t: "take (unat inSz + 0) ?o1 = take (unat inSz) ib" using inlen by simp
  have d: "drop (unat inSz + 0 + unat p) ?o1 = drop (unat inSz + unat p) ob"
    using inlen by (simp add: add.commute)
  show ?thesis
    unfolding p_def[symmetric]
    using i0 o0 nlt cp lp t d sp
    by (simp add: wc_PKCS7_PadData_def Let_def p_def[symmetric])
qed


lemma ucast_byte_small: "unat (p :: 32 word) \<le> 255 \<Longrightarrow> unat (ucast p :: 8 word) = unat p"
  by (simp add: unsigned_ucast_eq take_bit_nat_eq_self_iff)

lemma strip_pad_padded:
  assumes p1: "1 \<le> p" and pb: "unat b = p" and n: "n \<le> length ib"
  shows "strip_pad (take n ib @ replicate p b) = (int n, take n ib)"
proof -
  have ne: "replicate p b \<noteq> []" using p1 by auto
  have l: "last (take n ib @ replicate p b) = b" using ne by simp
  have len: "length (take n ib @ replicate p b) = n + p" using n by simp
  have u: "uint b = int p" using pb by (metis of_nat_unat)
  have spl: "strip_pad_len (take n ib @ replicate p b) = int n"
    unfolding strip_pad_len_def l len u by simp
  show ?thesis
    unfolding strip_pad_def spl using n by simp
qed

text \<open>
  Claim C7 (pad law), as the code has it. For an input size of at least 1 and a block
  size between 1 and 255, with \<open>inSz + blockSz\<close> below \<open>2^31\<close> and buffers of
  the sizes the caller declares: \<open>wc_PKCS7_GetPadSize\<close> is
  \<open>blockSz - (inSz mod blockSz)\<close> and lies in \<open>[1, blockSz]\<close>;
  \<open>wc_PKCS7_PadData\<close> copies the input, appends exactly that many bytes, each
  equal to the pad length, and returns \<open>inSz + padSz\<close>; and stripping by the last
  byte gives back the input and its length.
\<close>

theorem pad_law:
  assumes "inSz \<noteq> 0" and "blockSz \<noteq> 0" and "unat blockSz \<le> 255"
    and "unat inSz + unat blockSz < 2 ^ 31"
    and "unat inSz \<le> length ib"
    and "padSz = wc_PKCS7_GetPadSize inSz blockSz"
    and "unat inSz + unat padSz \<le> unat outSz"
    and "unat outSz \<le> length ob"
  shows "padSz = blockSz - inSz mod blockSz \<and>
         1 \<le> unat padSz \<and> unat padSz \<le> unat blockSz \<and>
         unat (ucast padSz :: byte) = unat padSz \<and>
         wc_PKCS7_PadData (Some ib) inSz (Some ob) outSz blockSz =
           Some (inSz + padSz,
                 Some (take (unat inSz) ib @ replicate (unat padSz) (ucast padSz) @
                       drop (unat inSz + unat padSz) ob)) \<and>
         unat (inSz + padSz) = unat inSz + unat padSz \<and>
         strip_pad (take (unat inSz) ib @ replicate (unat padSz) (ucast padSz)) =
           (int (unat inSz), take (unat inSz) ib)"
proof -
  have eq: "padSz = blockSz - inSz mod blockSz"
    using assms(2,6) by (simp add: wc_PKCS7_GetPadSize_def)
  have p1: "1 \<le> unat padSz" and ple: "unat padSz \<le> unat blockSz"
    using padsz_facts(2,3)[OF assms(2), of inSz] assms(6) by simp_all
  have pb: "unat (ucast padSz :: byte) = unat padSz"
    using ple assms(3) by (intro ucast_byte_small) simp
  have pd: "wc_PKCS7_PadData (Some ib) inSz (Some ob) outSz blockSz =
           Some (inSz + padSz,
                 Some (take (unat inSz) ib @ replicate (unat padSz) (ucast padSz) @
                       drop (unat inSz + unat padSz) ob))"
    using PadData_ok[OF assms(1,2,4,5) _ assms(8)] assms(6,7) by simp
  have sum: "unat (inSz + padSz) = unat inSz + unat padSz"
    using ple assms(4) by (simp add: unat_word_ariths)
  have sp: "strip_pad (take (unat inSz) ib @ replicate (unat padSz) (ucast padSz)) =
           (int (unat inSz), take (unat inSz) ib)"
    using p1 pb assms(5) by (intro strip_pad_padded) simp_all
  show ?thesis using eq p1 ple pb pd sum sp by simp
qed

text \<open>
  A concrete run of the pad law: 3 bytes padded to a block of 8.
\<close>

theorem pad_law_witness:
  "(3 :: word32) \<noteq> 0 \<and> (8 :: word32) \<noteq> 0 \<and> unat (8 :: word32) \<le> 255 \<and>
   wc_PKCS7_GetPadSize 3 8 = 5 \<and>
   wc_PKCS7_PadData (Some [1, 2, 3]) 3 (Some [0, 0, 0, 0, 0, 0, 0, 0, 9]) 8 8 =
     Some (8, Some [1, 2, 3, 5, 5, 5, 5, 5, 9]) \<and>
   strip_pad [1, 2, 3, 5, 5, 5, 5, 5] = (3, [1, 2, 3])"
proof -
  have p: "wc_PKCS7_GetPadSize 3 8 = 5" by (simp add: wc_PKCS7_GetPadSize_def)
  have u: "unat (5 :: word32) = 5" by simp
  have r: "replicate (unat (5 :: word32)) (5 :: byte) = [5, 5, 5, 5, 5]"
    unfolding u by (simp add: numeral_eq_Suc)
  show ?thesis
    using pad_law [of 3 8 "[1, 2, 3]" 5 8 "[0, 0, 0, 0, 0, 0, 0, 0, 9]"] p r
    by simp
qed

text \<open>
  The pad law does not hold for every block size: with \<open>blockSz = 256\<close> and an
  aligned input of 256 bytes the pad length is 256, the pad byte \<open>(byte)256\<close> is 0,
  and stripping by the last byte removes nothing.
\<close>

theorem pad_law_counterexample:
  "wc_PKCS7_GetPadSize 256 256 = 256 \<and>
   wc_PKCS7_PadData (Some (replicate 256 1)) 256 (Some (replicate 512 7)) 512 256 =
     Some (512, Some (replicate 256 1 @ replicate 256 0)) \<and>
   strip_pad (replicate 256 1 @ replicate 256 0) = (512, replicate 256 1 @ replicate 256 0)"
proof -
  have p: "wc_PKCS7_GetPadSize 256 256 = 256" by (simp add: wc_PKCS7_GetPadSize_def)
  have pd: "wc_PKCS7_PadData (Some (replicate 256 1)) 256 (Some (replicate 512 7)) 512 256 =
     Some (512, Some (replicate 256 1 @ replicate 256 0))"
    using PadData_ok [of 256 256 "replicate 256 1" 512 "replicate 512 7"] p by simp
  have l: "last (replicate 256 (1::byte) @ replicate 256 0) = 0" by simp
  have sp: "strip_pad (replicate 256 1 @ replicate 256 0) = (512, replicate 256 1 @ replicate 256 0)"
    by (simp add: strip_pad_def strip_pad_len_def l)
  show ?thesis using p pd sp by simp
qed

section \<open>EncryptedData: the version\<close>






text \<open>
  Runs of the encoder and of the stages of the decoder on the sample session, for the
  messages with version 0 or 2 and with or without the attributes.
\<close>

lemma enc_run_0: "wc_PKCS7_EncodeEncryptedData sample_ext enc_session True 200 =
    Inr (encrypted_msg 0 cipher_hi [])"
  by code_simp
















section \<open>Properties of the removal of the padding in the decoders\<close>

lemma as_parse_error_Inr_iff [simp]: "as_parse_error r = Inr v \<longleftrightarrow> r = Inr v"
  by (cases r) (simp_all add: as_parse_error_def)

lemma decrypted_in_place_length [simp]: "length (decrypted_in_place enc plain) = length enc"
  by (simp add: decrypted_in_place_def)

lemma read_bytes_length: "read_bytes buf i n = Inr bs \<Longrightarrow> length bs = n"
  by (auto simp: read_bytes_def split: if_splits)

lemma decrypted_nonempty:
  "read_bytes buf i n = Inr enc \<Longrightarrow> n \<noteq> 0 \<Longrightarrow> decrypted_in_place enc plain \<noteq> []"
  using read_bytes_length [of buf i n enc] decrypted_in_place_length [of enc plain]
  by (metis length_0_conv)

text \<open>
  A decoder that reaches the removal of the padding holds at least one decrypted byte:
  the length of the encrypted content was read as non-zero.
\<close>

lemma DecodeEncryptedData_content_nonempty:
  assumes "DecodeEncryptedData_content x p pkiMsg pkiMsgSz idx = Inr (idx', plain)"
  shows "plain \<noteq> []"
  using assms
  unfolding DecodeEncryptedData_content_def Let_def
  by (auto simp: bindE_Inr_iff dest: decrypted_nonempty split: if_splits prod.splits)

lemma DecodeEnvelopedData_content_nonempty:
  assumes "DecodeEnvelopedData_content x pkiMsg pkiMsgSz idx key = Inr plain"
  shows "plain \<noteq> []"
  using assms
  unfolding DecodeEnvelopedData_content_def Let_def
  by (auto simp: bindE_Inr_iff dest: decrypted_nonempty split: if_splits prod.splits)

lemma DecodeEncryptedData_body_nonempty:
  assumes "DecodeEncryptedData_body x p pkiMsg pkiMsgSz out outSz = Inr s"
  shows "es_plain s \<noteq> []"
  using assms
  unfolding DecodeEncryptedData_body_def
  by (auto simp: bindE_Inr_iff dest: DecodeEncryptedData_content_nonempty
           split: if_splits prod.splits)

lemma DecodeEnvelopedData_body_nonempty:
  assumes "DecodeEnvelopedData_body x kari p pkiMsg pkiMsgSz garbage keybuf out outSz = Inr plain"
  shows "plain \<noteq> []"
  using assms
  unfolding DecodeEnvelopedData_body_def
  by (auto simp: bindE_Inr_iff dest: DecodeEnvelopedData_content_nonempty
           split: if_splits prod.splits)


lemma strip_padding_eq: "strip_padding plain = stripped plain"
  by (simp add: strip_padding_def strip_pad_def strip_pad_len_def stripped_def)

text \<open>
  Runs of the two decoders on the sample sessions: a decrypted block that ends in
  \<open>0xFF\<close>, and a padded content of three bytes with an output buffer of one byte.
\<close>

lemma env_run_ff: "DecodeEnvelopedData_body sample_ext no_kari env_session
     (Some (enveloped_msg ktri_ours cipher_ff)) 153 (replicate 512 0) (replicate 512 0) True 100 =
     Inr plain_ff"
  by code_simp

lemma env_run_hi: "DecodeEnvelopedData_body sample_ext no_kari env_session
     (Some (enveloped_msg ktri_ours cipher_hi)) 153 (replicate 512 0) (replicate 512 0) True 1 =
     Inr plain_hi"
  by code_simp

lemma enc_run_ff: "DecodeEncryptedData_body sample_ext enc_session
      (Some (encrypted_msg 0 cipher_ff [])) 82 True 100 =
    Inr \<lparr>es_version = 0, es_haveAttribs = False,
         es_plain = plain_ff, es_pkcs7 = enc_session\<rparr>"
  by code_simp

lemma enc_run_hi: "DecodeEncryptedData_body sample_ext enc_session
      (Some (encrypted_msg 0 cipher_hi [])) 82 True 1 =
    Inr \<lparr>es_version = 0, es_haveAttribs = False,
         es_plain = plain_hi, es_pkcs7 = enc_session\<rparr>"
  by code_simp

lemma stripped_ff: "stripped plain_ff =
   \<lparr>d_ret = - 239, d_copied = - 239, d_output = []\<rparr>"
  by (simp add: stripped_def plain_ff_def)

lemma stripped_hi: "stripped plain_hi =
   \<lparr>d_ret = 3, d_copied = 3, d_output = [0x48, 0x69, 0x21]\<rparr>"
  by (simp add: stripped_def plain_hi_def)

lemma DecodeEnvelopedData_strip:
  "DecodeEnvelopedData_body x kari p pkiMsg pkiMsgSz garbage keybuf out outSz = Inr plain \<Longrightarrow>
   wc_PKCS7_DecodeEnvelopedData x kari p pkiMsg pkiMsgSz garbage keybuf out outSz =
     Inr (stripped plain)"
  by (simp add: wc_PKCS7_DecodeEnvelopedData_def strip_padding_eq)

lemma DecodeEncryptedData_strip:
  "DecodeEncryptedData_body x p pkiMsg pkiMsgSz out outSz = Inr s \<Longrightarrow>
   (\<not> es_haveAttribs s \<and> es_version s = 0) \<or> (es_haveAttribs s \<and> es_version s = 2) \<Longrightarrow>
   wc_PKCS7_DecodeEncryptedData x p pkiMsg pkiMsgSz out outSz =
     Inr (stripped (es_plain s), es_pkcs7 s)"
  by (auto simp: wc_PKCS7_DecodeEncryptedData_def strip_padding_eq)

text \<open>
  Claim C10. In \<open>wc_PKCS7_DecodeEnvelopedData\<close> and
  \<open>wc_PKCS7_DecodeEncryptedData\<close> the pad length is the last decrypted byte, with no
  check of its range: whenever the decoder has decrypted the content (and, for
  EncryptedData, the version fits), it returns the size of the decrypted content minus
  that byte, and copies that many bytes to the output, whatever the block size, the
  size of the content and the size \<open>outputSz\<close> of the output buffer are. So there are
  messages for which the returned length is negative, and messages for which the copy
  is longer than the output buffer declared, for either decoder.
\<close>

theorem pad_strip_unchecked:
  "(DecodeEnvelopedData_body x kari p pkiMsg pkiMsgSz garbage keybuf out outSz = Inr plain \<longrightarrow>
      plain \<noteq> [] \<and>
      wc_PKCS7_DecodeEnvelopedData x kari p pkiMsg pkiMsgSz garbage keybuf out outSz =
        Inr (stripped plain)) \<and>
   (DecodeEncryptedData_body x' p' pkiMsg' pkiMsgSz' out' outSz' = Inr s \<and>
    ((\<not> es_haveAttribs s \<and> es_version s = 0) \<or> (es_haveAttribs s \<and> es_version s = 2)) \<longrightarrow>
      es_plain s \<noteq> [] \<and>
      wc_PKCS7_DecodeEncryptedData x' p' pkiMsg' pkiMsgSz' out' outSz' =
        Inr (stripped (es_plain s), es_pkcs7 s)) \<and>
   (\<exists>y k q m n g kb sz r.
      wc_PKCS7_DecodeEnvelopedData y k q (Some m) n g kb True sz = Inr r \<and> d_ret r < 0) \<and>
   (\<exists>y k q m n g kb sz r.
      wc_PKCS7_DecodeEnvelopedData y k q (Some m) n g kb True sz = Inr r \<and> int sz < d_copied r) \<and>
   (\<exists>y q m n sz r.
      wc_PKCS7_DecodeEncryptedData y q (Some m) n True sz = Inr r \<and> d_ret (fst r) < 0) \<and>
   (\<exists>y q m n sz r.
      wc_PKCS7_DecodeEncryptedData y q (Some m) n True sz = Inr r \<and> int sz < d_copied (fst r))"
proof -
  have "wc_PKCS7_DecodeEnvelopedData sample_ext no_kari env_session
          (Some (enveloped_msg ktri_ours cipher_ff)) 153 (replicate 512 0) (replicate 512 0)
          True 100 = Inr (stripped plain_ff) \<and>
        d_ret (stripped plain_ff) < 0"
    using DecodeEnvelopedData_strip [OF env_run_ff] by (simp add: stripped_ff)
  then have e1: "\<exists>y k q m n g kb sz r.
      wc_PKCS7_DecodeEnvelopedData y k q (Some m) n g kb True sz = Inr r \<and> d_ret r < 0"
    by blast
  have "wc_PKCS7_DecodeEnvelopedData sample_ext no_kari env_session
          (Some (enveloped_msg ktri_ours cipher_hi)) 153 (replicate 512 0) (replicate 512 0)
          True 1 = Inr (stripped plain_hi) \<and>
        int 1 < d_copied (stripped plain_hi)"
    using DecodeEnvelopedData_strip [OF env_run_hi] by (simp add: stripped_hi)
  then have e2: "\<exists>y k q m n g kb sz r.
      wc_PKCS7_DecodeEnvelopedData y k q (Some m) n g kb True sz = Inr r \<and> int sz < d_copied r"
    by blast
  have "wc_PKCS7_DecodeEncryptedData sample_ext enc_session
          (Some (encrypted_msg 0 cipher_ff [])) 82 True 100 =
          Inr (stripped plain_ff, enc_session) \<and>
        d_ret (fst (stripped plain_ff, enc_session)) < 0"
    using DecodeEncryptedData_strip [OF enc_run_ff] by (simp add: stripped_ff)
  then have e3: "\<exists>y q m n sz r.
      wc_PKCS7_DecodeEncryptedData y q (Some m) n True sz = Inr r \<and> d_ret (fst r) < 0"
    by blast
  have "wc_PKCS7_DecodeEncryptedData sample_ext enc_session
          (Some (encrypted_msg 0 cipher_hi [])) 82 True 1 =
          Inr (stripped plain_hi, enc_session) \<and>
        int 1 < d_copied (fst (stripped plain_hi, enc_session))"
    using DecodeEncryptedData_strip [OF enc_run_hi] by (simp add: stripped_hi)
  then have e4: "\<exists>y q m n sz r.
      wc_PKCS7_DecodeEncryptedData y q (Some m) n True sz = Inr r \<and> int sz < d_copied (fst r)"
    by blast
  have a: "DecodeEnvelopedData_body x kari p pkiMsg pkiMsgSz garbage keybuf out outSz = Inr plain \<longrightarrow>
      plain \<noteq> [] \<and>
      wc_PKCS7_DecodeEnvelopedData x kari p pkiMsg pkiMsgSz garbage keybuf out outSz =
        Inr (stripped plain)"
    using DecodeEnvelopedData_body_nonempty [of x kari p pkiMsg pkiMsgSz garbage keybuf out outSz plain]
      DecodeEnvelopedData_strip [of x kari p pkiMsg pkiMsgSz garbage keybuf out outSz plain]
    by blast
  have b: "DecodeEncryptedData_body x' p' pkiMsg' pkiMsgSz' out' outSz' = Inr s \<and>
    ((\<not> es_haveAttribs s \<and> es_version s = 0) \<or> (es_haveAttribs s \<and> es_version s = 2)) \<longrightarrow>
      es_plain s \<noteq> [] \<and>
      wc_PKCS7_DecodeEncryptedData x' p' pkiMsg' pkiMsgSz' out' outSz' =
        Inr (stripped (es_plain s), es_pkcs7 s)"
    using DecodeEncryptedData_body_nonempty [of x' p' pkiMsg' pkiMsgSz' out' outSz' s]
      DecodeEncryptedData_strip [of x' p' pkiMsg' pkiMsgSz' out' outSz' s]
    by blast
  show ?thesis
    by (intro conjI a b e1 e2 e3 e4)
qed

text \<open>
  Claim C10 on the sample sessions: an EnvelopedData message whose decrypted content ends
  in \<open>0xFF\<close> gives the length -239; an EncryptedData message of three bytes of
  content is copied in full to an output buffer declared with one byte.
\<close>

theorem pad_strip_unchecked_witness:
  "wc_PKCS7_DecodeEnvelopedData sample_ext no_kari env_session
     (Some (enveloped_msg ktri_ours cipher_ff)) 153 (replicate 512 0) (replicate 512 0) True 100 =
     Inr \<lparr>d_ret = - 239, d_copied = - 239, d_output = []\<rparr> \<and>
   wc_PKCS7_DecodeEncryptedData sample_ext enc_session
      (Some (encrypted_msg 0 cipher_hi [])) 82 True 1 =
     Inr (\<lparr>d_ret = 3, d_copied = 3, d_output = [0x48, 0x69, 0x21]\<rparr>, enc_session)"
  using pad_strip_unchecked [of sample_ext no_kari env_session
          "Some (enveloped_msg ktri_ours cipher_ff)" 153 "replicate 512 0" "replicate 512 0"
          True 100 "plain_ff"
          sample_ext enc_session "Some (encrypted_msg 0 cipher_hi [])" 82 True 1
          "\<lparr>es_version = 0, es_haveAttribs = False,
            es_plain = plain_hi, es_pkcs7 = enc_session\<rparr>"]
        env_run_ff enc_run_hi stripped_ff stripped_hi
  by simp


section \<open>Properties of the walk over the recipients\<close>

text \<open>
  Claim C5 at a concrete message. The session holds the certificate and the RSA key of
  one recipient. With that recipient alone the message is decoded. With a recipient of
  another certificate in front, \<open>wc_PKCS7_DecodeKtri\<close> does not copy the encrypted key
  of the first recipient (the issuer hashes differ) but still decrypts its local array,
  which holds no cipher text of the key (here: zeros); the error of the RSA primitive
  ends the walk and the decoder. With the recipient of the session in front and the
  other one behind it, the walk stops at the match and the decoder reads the second
  RecipientInfo as the EncryptedContentInfo: \<open>ASN_PARSE_E\<close>.
\<close>

theorem two_recipients_second_matches:
  "wc_PKCS7_DecodeEnvelopedData sample_ext no_kari env_session
     (Some (enveloped_msg ktri_ours cipher_hi)) 153
     (replicate 512 0) (replicate 512 0) True 100 =
     Inr \<lparr>d_ret = 3, d_copied = 3, d_output = [0x48, 0x69, 0x21]\<rparr> \<and>
   wc_PKCS7_DecodeEnvelopedData sample_ext no_kari env_session
     (Some (enveloped_msg (ktri_other @ ktri_ours) cipher_hi)) 220
     (replicate 512 0) (replicate 512 0) True 100 = Inl (PRIM_E (- 1)) \<and>
   wc_PKCS7_DecodeEnvelopedData sample_ext no_kari env_session
     (Some (enveloped_msg (ktri_ours @ ktri_other) cipher_hi)) 220
     (replicate 512 0) (replicate 512 0) True 100 = Inl ASN_PARSE_E"
  by code_simp

section \<open>SignedData: the inputs of the encoder\<close>


lemma bindE_assoc: "bindE (bindE m f) g = bindE m (\<lambda>v. bindE (f v) g)"
  by (simp add: bindE_def split: sum.splits)

lemmas branch_cong = if_cong option.case_cong sum.case_cong sid_type.case_cong

text \<open>
  No step of the encoder but the copy of the content into the one-buffer output reads
  \<open>pkcs7->content\<close>.
\<close>

lemma RsaSign_content [simp]:
  "wc_PKCS7_RsaSign x (pkcs7\<lparr>content := c\<rparr>) inp = wc_PKCS7_RsaSign x pkcs7 inp"
  by (simp add: wc_PKCS7_RsaSign_def cong: branch_cong)

lemma EcdsaSign_content [simp]:
  "wc_PKCS7_EcdsaSign x (pkcs7\<lparr>content := c\<rparr>) inp = wc_PKCS7_EcdsaSign x pkcs7 inp"
  by (simp add: wc_PKCS7_EcdsaSign_def cong: branch_cong)

lemma BuildDigestInfo_content [simp]:
  "wc_PKCS7_BuildDigestInfo x (pkcs7\<lparr>content := c\<rparr>) f t d n =
   wc_PKCS7_BuildDigestInfo x pkcs7 f t d n"
  by (simp add: wc_PKCS7_BuildDigestInfo_def cong: branch_cong)

lemma BuildSignature_content [simp]:
  "wc_PKCS7_SignedDataBuildSignature x (pkcs7\<lparr>content := c\<rparr>) f t d =
   wc_PKCS7_SignedDataBuildSignature x pkcs7 f t d"
  by (simp add: wc_PKCS7_SignedDataBuildSignature_def cong: branch_cong)

lemma BuildSignedAttributes_content [simp]:
  "wc_PKCS7_BuildSignedAttributes x stale (pkcs7\<lparr>content := c\<rparr>) t d =
   wc_PKCS7_BuildSignedAttributes x stale pkcs7 t d"
  by (simp add: wc_PKCS7_BuildSignedAttributes_def cong: branch_cong)

lemma GetEncAlgoId_content [simp]:
  "wc_PKCS7_SignedDataGetEncAlgoId (pkcs7\<lparr>content := c\<rparr>) =
   wc_PKCS7_SignedDataGetEncAlgoId pkcs7"
  by (simp add: wc_PKCS7_SignedDataGetEncAlgoId_def cong: branch_cong)

lemma EncodeSigned_signer_content [simp]:
  "EncodeSigned_signer x stale (pkcs7\<lparr>content := c\<rparr>) t d =
   EncodeSigned_signer x stale pkcs7 t d"
  by (simp add: EncodeSigned_signer_def cong: branch_cong)

lemma EncodeSigned_layout_content [simp]:
  "EncodeSigned_layout x (pkcs7\<lparr>content := c\<rparr>) oid' sp = EncodeSigned_layout x pkcs7 oid' sp"
  by (cases pkcs7) (simp only: EncodeSigned_layout_def PKCS7.update_convs PKCS7.select_convs)
















section \<open>SignedData: what is signed\<close>










end
